theory Spec2Isabelle
  imports Complex_Main "HOL-Library.Word" "HOL-Library.Monad_Syntax" "HOL-Library.Multiset"
begin


text \<open>
  A model of \<open>src/audio-pattern.js\<close>, the pattern utility for the SP-404: \<open>parse\<close>
  (pattern bytes to notes), \<open>toMidi\<close> (notes to a MIDI track) and \<open>fromMidi\<close> (a MIDI
  document to pattern records and a footer), and the properties of them that the
  description of the program states.
\<close>

section \<open>JavaScript numbers and strings\<close>

text \<open>
  Integers of the program are \<open>int\<close> (a JavaScript number holds an integer exactly
  below \<open>2^53\<close>). The two places where the source divides
  (\<open>remainingBytes / bytesPerNote\<close>, \<open>patternPPQN / midiPPQN\<close>) are computed in
  \<open>real\<close>. The exact quotient and the double of the program agree wherever the
  quotient is a double itself (a stride of 8, a PPQN ratio that is an integer), which
  is where the theorems below evaluate them; at another ratio a product that lies
  exactly on a half can round the other way in the program.
\<close>

text \<open>\<open>a % b\<close>: the remainder takes the sign of the dividend.\<close>

definition js_rem :: "int \<Rightarrow> int \<Rightarrow> int" where
  "js_rem a b = sgn a * (\<bar>a\<bar> mod \<bar>b\<bar>)"

text \<open>\<open>Math.round\<close>: to the nearest integer, a half towards plus infinity.\<close>

definition Math_round :: "real \<Rightarrow> int" where
  "Math_round x = \<lfloor>x + 1 / 2\<rfloor>"

text \<open>The decimal digits of a natural number, and \<open>String(n)\<close> of an integer.\<close>

fun digits :: "nat \<Rightarrow> string" where
  "digits n = (if n < 10 then [char_of (48 + n)]
               else digits (n div 10) @ [char_of (48 + n mod 10)])"

definition String_of :: "int \<Rightarrow> string" where
  "String_of n = (if n < 0 then CHR ''-'' # digits (nat (- n)) else digits (nat n))"

text \<open>
  \<open>String.fromCharCode(c)\<close>: the code unit \<open>c mod 65536\<close>. A \<open>string\<close> here is
  a list of bytes, so the character is written as its UTF-8 bytes (one byte below 128).
\<close>

definition String_fromCharCode :: "int \<Rightarrow> string" where
  "String_fromCharCode c =
     (let u = c mod 65536 in
      if u < 128 then [char_of u]
      else if u < 2048 then [char_of (192 + u div 64), char_of (128 + u mod 64)]
      else [char_of (224 + u div 4096), char_of (128 + (u div 64) mod 64),
            char_of (128 + u mod 64)])"

datatype number = Finite real | Infinity | NaN

text \<open>\<open>i < x\<close> for an integer \<open>i\<close> and a number \<open>x\<close>; every comparison with NaN is false.\<close>

fun less_number :: "nat \<Rightarrow> number \<Rightarrow> bool" where
  "less_number i (Finite r) = (real i < r)"
| "less_number i Infinity = True"
| "less_number i NaN = False"

section \<open>The byte cursor\<close>

text \<open>
  Modelled from the spec: the cursor of \<open>@uttori/data-tools\<close> (\<open>DataBuffer\<close>), which
  is not among the sources. A cursor in read mode is the list of bytes from its offset
  to the end; a read that needs more bytes than remain is an underflow (\<open>None\<close>).
\<close>

type_synonym buffer = "8 word list"

definition remainingBytes :: "buffer \<Rightarrow> nat" where
  "remainingBytes b = length b"

definition readUInt8 :: "buffer \<Rightarrow> (int \<times> buffer) option" where
  "readUInt8 b = (case b of [] \<Rightarrow> None | x # rest \<Rightarrow> Some (uint x, rest))"

text \<open>\<open>readUInt16(littleEndian)\<close>.\<close>

definition readUInt16 :: "bool \<Rightarrow> buffer \<Rightarrow> (int \<times> buffer) option" where
  "readUInt16 littleEndian b =
     (case b of
        x # y # rest \<Rightarrow>
          Some (if littleEndian then uint x + 256 * uint y else 256 * uint x + uint y, rest)
      | _ \<Rightarrow> None)"

definition read :: "nat \<Rightarrow> buffer \<Rightarrow> (buffer \<times> buffer) option" where
  "read n b = (if length b < n then None else Some (take n b, drop n b))"

section \<open>Pattern notes and the pad tables\<close>

text \<open>The seven stored fields of a note record, in the order of the file.\<close>

record raw_note =
  ticks :: int
  midiNote :: int
  bankSwitch :: int
  pitchMode :: int
  velocity :: int
  unknown3 :: int
  length_t :: int

text \<open>A parsed \<open>Note\<close>: the stored fields and the two derived ones.\<close>

record Note = raw_note +
  sampleNumber :: int
  padLabel :: string

datatype PadMapping = PadMapping (pm_midiNote: int) (pm_pad: string) (pm_bankSwitch: int)

text \<open>\<open>AudioPattern.defaultMap\<close>: pads A1 to J16 of the SP-404 MKii.\<close>

definition defaultMap :: "(string \<times> PadMapping) list" where
  "defaultMap = [
    (''A1'', PadMapping 47 ''A1'' 64),
    (''A2'', PadMapping 48 ''A2'' 64),
    (''A3'', PadMapping 49 ''A3'' 64),
    (''A4'', PadMapping 50 ''A4'' 64),
    (''A5'', PadMapping 51 ''A5'' 64),
    (''A6'', PadMapping 52 ''A6'' 64),
    (''A7'', PadMapping 53 ''A7'' 64),
    (''A8'', PadMapping 54 ''A8'' 64),
    (''A9'', PadMapping 55 ''A9'' 64),
    (''A10'', PadMapping 56 ''A10'' 64),
    (''A11'', PadMapping 57 ''A11'' 64),
    (''A12'', PadMapping 58 ''A12'' 64),
    (''A13'', PadMapping 59 ''A13'' 64),
    (''A14'', PadMapping 60 ''A14'' 64),
    (''A15'', PadMapping 61 ''A15'' 64),
    (''A16'', PadMapping 62 ''A16'' 64),
    (''B1'', PadMapping 63 ''B1'' 64),
    (''B2'', PadMapping 64 ''B2'' 64),
    (''B3'', PadMapping 65 ''B3'' 64),
    (''B4'', PadMapping 66 ''B4'' 64),
    (''B5'', PadMapping 67 ''B5'' 64),
    (''B6'', PadMapping 68 ''B6'' 64),
    (''B7'', PadMapping 69 ''B7'' 64),
    (''B8'', PadMapping 70 ''B8'' 64),
    (''B9'', PadMapping 71 ''B9'' 64),
    (''B10'', PadMapping 72 ''B10'' 64),
    (''B11'', PadMapping 73 ''B11'' 64),
    (''B12'', PadMapping 74 ''B12'' 64),
    (''B13'', PadMapping 75 ''B13'' 64),
    (''B14'', PadMapping 76 ''B14'' 64),
    (''B15'', PadMapping 77 ''B15'' 64),
    (''B16'', PadMapping 78 ''B16'' 64),
    (''C1'', PadMapping 79 ''C1'' 64),
    (''C2'', PadMapping 80 ''C2'' 64),
    (''C3'', PadMapping 81 ''C3'' 64),
    (''C4'', PadMapping 82 ''C4'' 64),
    (''C5'', PadMapping 83 ''C5'' 64),
    (''C6'', PadMapping 84 ''C6'' 64),
    (''C7'', PadMapping 85 ''C7'' 64),
    (''C8'', PadMapping 86 ''C8'' 64),
    (''C9'', PadMapping 87 ''C9'' 64),
    (''C10'', PadMapping 88 ''C10'' 64),
    (''C11'', PadMapping 89 ''C11'' 64),
    (''C12'', PadMapping 90 ''C12'' 64),
    (''C13'', PadMapping 91 ''C13'' 64),
    (''C14'', PadMapping 92 ''C14'' 64),
    (''C15'', PadMapping 93 ''C15'' 64),
    (''C16'', PadMapping 94 ''C16'' 64),
    (''D1'', PadMapping 95 ''D1'' 64),
    (''D2'', PadMapping 96 ''D2'' 64),
    (''D3'', PadMapping 97 ''D3'' 64),
    (''D4'', PadMapping 98 ''D4'' 64),
    (''D5'', PadMapping 99 ''D5'' 64),
    (''D6'', PadMapping 100 ''D6'' 64),
    (''D7'', PadMapping 101 ''D7'' 64),
    (''D8'', PadMapping 102 ''D8'' 64),
    (''D9'', PadMapping 103 ''D9'' 64),
    (''D10'', PadMapping 104 ''D10'' 64),
    (''D11'', PadMapping 105 ''D11'' 64),
    (''D12'', PadMapping 106 ''D12'' 64),
    (''D13'', PadMapping 107 ''D13'' 64),
    (''D14'', PadMapping 108 ''D14'' 64),
    (''D15'', PadMapping 109 ''D15'' 64),
    (''D16'', PadMapping 110 ''D16'' 64),
    (''E1'', PadMapping 111 ''E1'' 64),
    (''E2'', PadMapping 112 ''E2'' 64),
    (''E3'', PadMapping 113 ''E3'' 64),
    (''E4'', PadMapping 114 ''E4'' 64),
    (''E5'', PadMapping 115 ''E5'' 64),
    (''E6'', PadMapping 116 ''E6'' 64),
    (''E7'', PadMapping 117 ''E7'' 64),
    (''E8'', PadMapping 118 ''E8'' 64),
    (''E9'', PadMapping 119 ''E9'' 64),
    (''E10'', PadMapping 120 ''E10'' 64),
    (''E11'', PadMapping 121 ''E11'' 64),
    (''E12'', PadMapping 122 ''E12'' 64),
    (''E13'', PadMapping 123 ''E13'' 64),
    (''E14'', PadMapping 124 ''E14'' 64),
    (''E15'', PadMapping 125 ''E15'' 64),
    (''E16'', PadMapping 126 ''E16'' 64),
    (''F1'', PadMapping 47 ''F1'' 65),
    (''F2'', PadMapping 48 ''F2'' 65),
    (''F3'', PadMapping 49 ''F3'' 65),
    (''F4'', PadMapping 50 ''F4'' 65),
    (''F5'', PadMapping 51 ''F5'' 65),
    (''F6'', PadMapping 52 ''F6'' 65),
    (''F7'', PadMapping 53 ''F7'' 65),
    (''F8'', PadMapping 54 ''F8'' 65),
    (''F9'', PadMapping 55 ''F9'' 65),
    (''F10'', PadMapping 56 ''F10'' 65),
    (''F11'', PadMapping 57 ''F11'' 65),
    (''F12'', PadMapping 58 ''F12'' 65),
    (''F13'', PadMapping 59 ''F13'' 65),
    (''F14'', PadMapping 60 ''F14'' 65),
    (''F15'', PadMapping 61 ''F15'' 65),
    (''F16'', PadMapping 62 ''F16'' 65),
    (''G1'', PadMapping 63 ''G1'' 65),
    (''G2'', PadMapping 64 ''G2'' 65),
    (''G3'', PadMapping 65 ''G3'' 65),
    (''G4'', PadMapping 66 ''G4'' 65),
    (''G5'', PadMapping 67 ''G5'' 65),
    (''G6'', PadMapping 68 ''G6'' 65),
    (''G7'', PadMapping 69 ''G7'' 65),
    (''G8'', PadMapping 70 ''G8'' 65),
    (''G9'', PadMapping 71 ''G9'' 65),
    (''G10'', PadMapping 72 ''G10'' 65),
    (''G11'', PadMapping 73 ''G11'' 65),
    (''G12'', PadMapping 74 ''G12'' 65),
    (''G13'', PadMapping 75 ''G13'' 65),
    (''G14'', PadMapping 76 ''G14'' 65),
    (''G15'', PadMapping 77 ''G15'' 65),
    (''G16'', PadMapping 78 ''G16'' 65),
    (''H1'', PadMapping 79 ''H1'' 65),
    (''H2'', PadMapping 80 ''H2'' 65),
    (''H3'', PadMapping 81 ''H3'' 65),
    (''H4'', PadMapping 82 ''H4'' 65),
    (''H5'', PadMapping 83 ''H5'' 65),
    (''H6'', PadMapping 84 ''H6'' 65),
    (''H7'', PadMapping 85 ''H7'' 65),
    (''H8'', PadMapping 86 ''H8'' 65),
    (''H9'', PadMapping 87 ''H9'' 65),
    (''H10'', PadMapping 88 ''H10'' 65),
    (''H11'', PadMapping 89 ''H11'' 65),
    (''H12'', PadMapping 90 ''H12'' 65),
    (''H13'', PadMapping 91 ''H13'' 65),
    (''H14'', PadMapping 92 ''H14'' 65),
    (''H15'', PadMapping 93 ''H15'' 65),
    (''H16'', PadMapping 94 ''H16'' 65),
    (''I1'', PadMapping 95 ''I1'' 65),
    (''I2'', PadMapping 96 ''I2'' 65),
    (''I3'', PadMapping 97 ''I3'' 65),
    (''I4'', PadMapping 98 ''I4'' 65),
    (''I5'', PadMapping 99 ''I5'' 65),
    (''I6'', PadMapping 100 ''I6'' 65),
    (''I7'', PadMapping 101 ''I7'' 65),
    (''I8'', PadMapping 102 ''I8'' 65),
    (''I9'', PadMapping 103 ''I9'' 65),
    (''I10'', PadMapping 104 ''I10'' 65),
    (''I11'', PadMapping 105 ''I11'' 65),
    (''I12'', PadMapping 106 ''I12'' 65),
    (''I13'', PadMapping 107 ''I13'' 65),
    (''I14'', PadMapping 108 ''I14'' 65),
    (''I15'', PadMapping 109 ''I15'' 65),
    (''I16'', PadMapping 110 ''I16'' 65),
    (''J1'', PadMapping 111 ''J1'' 65),
    (''J2'', PadMapping 112 ''J2'' 65),
    (''J3'', PadMapping 113 ''J3'' 65),
    (''J4'', PadMapping 114 ''J4'' 65),
    (''J5'', PadMapping 115 ''J5'' 65),
    (''J6'', PadMapping 116 ''J6'' 65),
    (''J7'', PadMapping 117 ''J7'' 65),
    (''J8'', PadMapping 118 ''J8'' 65),
    (''J9'', PadMapping 119 ''J9'' 65),
    (''J10'', PadMapping 120 ''J10'' 65),
    (''J11'', PadMapping 121 ''J11'' 65),
    (''J12'', PadMapping 122 ''J12'' 65),
    (''J13'', PadMapping 123 ''J13'' 65),
    (''J14'', PadMapping 124 ''J14'' 65),
    (''J15'', PadMapping 125 ''J15'' 65),
    (''J16'', PadMapping 126 ''J16'' 65)]"

definition defaultMapOG :: "(string \<times> PadMapping) list" where
  "defaultMapOG = [
    (''A1'', PadMapping 47 ''A1'' 0),
    (''A2'', PadMapping 48 ''A2'' 0),
    (''A3'', PadMapping 49 ''A3'' 0),
    (''A4'', PadMapping 50 ''A4'' 0),
    (''A5'', PadMapping 51 ''A5'' 0),
    (''A6'', PadMapping 52 ''A6'' 0),
    (''A7'', PadMapping 53 ''A7'' 0),
    (''A8'', PadMapping 54 ''A8'' 0),
    (''A9'', PadMapping 55 ''A9'' 0),
    (''A10'', PadMapping 56 ''A10'' 0),
    (''A11'', PadMapping 57 ''A11'' 0),
    (''A12'', PadMapping 58 ''A12'' 0),
    (''B1'', PadMapping 59 ''B1'' 0),
    (''B2'', PadMapping 60 ''B2'' 0),
    (''B3'', PadMapping 61 ''B3'' 0),
    (''B4'', PadMapping 62 ''B4'' 0),
    (''B5'', PadMapping 63 ''B5'' 0),
    (''B6'', PadMapping 64 ''B6'' 0),
    (''B7'', PadMapping 65 ''B7'' 0),
    (''B8'', PadMapping 66 ''B8'' 0),
    (''B9'', PadMapping 67 ''B9'' 0),
    (''B10'', PadMapping 68 ''B10'' 0),
    (''B11'', PadMapping 69 ''B11'' 0),
    (''B12'', PadMapping 70 ''B12'' 0),
    (''C1'', PadMapping 71 ''C1'' 0),
    (''C2'', PadMapping 72 ''C2'' 0),
    (''C3'', PadMapping 73 ''C3'' 0),
    (''C4'', PadMapping 74 ''C4'' 0),
    (''C5'', PadMapping 75 ''C5'' 0),
    (''C6'', PadMapping 76 ''C6'' 0),
    (''C7'', PadMapping 77 ''C7'' 0),
    (''C8'', PadMapping 78 ''C8'' 0),
    (''C9'', PadMapping 79 ''C9'' 0),
    (''C10'', PadMapping 80 ''C10'' 0),
    (''C11'', PadMapping 81 ''C11'' 0),
    (''C12'', PadMapping 82 ''C12'' 0),
    (''D1'', PadMapping 83 ''D1'' 0),
    (''D2'', PadMapping 84 ''D2'' 0),
    (''D3'', PadMapping 85 ''D3'' 0),
    (''D4'', PadMapping 86 ''D4'' 0),
    (''D5'', PadMapping 87 ''D5'' 0),
    (''D6'', PadMapping 88 ''D6'' 0),
    (''D7'', PadMapping 89 ''D7'' 0),
    (''D8'', PadMapping 90 ''D8'' 0),
    (''D9'', PadMapping 91 ''D9'' 0),
    (''D10'', PadMapping 92 ''D10'' 0),
    (''D11'', PadMapping 93 ''D11'' 0),
    (''D12'', PadMapping 94 ''D12'' 0),
    (''E1'', PadMapping 95 ''E1'' 0),
    (''E2'', PadMapping 96 ''E2'' 0),
    (''E3'', PadMapping 97 ''E3'' 0),
    (''E4'', PadMapping 98 ''E4'' 0),
    (''E5'', PadMapping 99 ''E5'' 0),
    (''E6'', PadMapping 100 ''E6'' 0),
    (''E7'', PadMapping 101 ''E7'' 0),
    (''E8'', PadMapping 102 ''E8'' 0),
    (''E9'', PadMapping 103 ''E9'' 0),
    (''E10'', PadMapping 104 ''E10'' 0),
    (''E11'', PadMapping 105 ''E11'' 0),
    (''E12'', PadMapping 106 ''E12'' 0),
    (''F1'', PadMapping 107 ''F1'' 0),
    (''F2'', PadMapping 108 ''F2'' 0),
    (''F3'', PadMapping 109 ''F3'' 0),
    (''F4'', PadMapping 110 ''F4'' 0),
    (''F5'', PadMapping 111 ''F5'' 0),
    (''F6'', PadMapping 112 ''F6'' 0),
    (''F7'', PadMapping 113 ''F7'' 0),
    (''F8'', PadMapping 114 ''F8'' 0),
    (''F9'', PadMapping 115 ''F9'' 0),
    (''F10'', PadMapping 116 ''F10'' 0),
    (''F11'', PadMapping 117 ''F11'' 0),
    (''F12'', PadMapping 118 ''F12'' 0),
    (''G1'', PadMapping 71 ''G1'' 64),
    (''G2'', PadMapping 72 ''G2'' 64),
    (''G3'', PadMapping 73 ''G3'' 64),
    (''G4'', PadMapping 74 ''G4'' 64),
    (''G5'', PadMapping 75 ''G5'' 64),
    (''G6'', PadMapping 76 ''G6'' 64),
    (''G7'', PadMapping 77 ''G7'' 64),
    (''G8'', PadMapping 78 ''G8'' 64),
    (''G9'', PadMapping 79 ''G9'' 64),
    (''G10'', PadMapping 80 ''G10'' 64),
    (''G11'', PadMapping 81 ''G11'' 64),
    (''G12'', PadMapping 82 ''G12'' 64),
    (''H1'', PadMapping 83 ''H1'' 64),
    (''H2'', PadMapping 84 ''H2'' 64),
    (''H3'', PadMapping 85 ''H3'' 64),
    (''H4'', PadMapping 86 ''H4'' 64),
    (''H5'', PadMapping 87 ''H5'' 64),
    (''H6'', PadMapping 88 ''H6'' 64),
    (''H7'', PadMapping 89 ''H7'' 64),
    (''H8'', PadMapping 90 ''H8'' 64),
    (''H9'', PadMapping 91 ''H9'' 64),
    (''H10'', PadMapping 92 ''H10'' 64),
    (''H11'', PadMapping 93 ''H11'' 64),
    (''H12'', PadMapping 94 ''H12'' 64),
    (''I1'', PadMapping 95 ''I1'' 64),
    (''I2'', PadMapping 96 ''I2'' 64),
    (''I3'', PadMapping 97 ''I3'' 64),
    (''I4'', PadMapping 98 ''I4'' 64),
    (''I5'', PadMapping 99 ''I5'' 64),
    (''I6'', PadMapping 100 ''I6'' 64),
    (''I7'', PadMapping 101 ''I7'' 64),
    (''I8'', PadMapping 102 ''I8'' 64),
    (''I9'', PadMapping 103 ''I9'' 64),
    (''I10'', PadMapping 104 ''I10'' 64),
    (''I11'', PadMapping 105 ''I11'' 64),
    (''I12'', PadMapping 106 ''I12'' 64),
    (''J1'', PadMapping 107 ''J1'' 64),
    (''J2'', PadMapping 108 ''J2'' 64),
    (''J3'', PadMapping 109 ''J3'' 64),
    (''J4'', PadMapping 110 ''J4'' 64),
    (''J5'', PadMapping 111 ''J5'' 64),
    (''J6'', PadMapping 112 ''J6'' 64),
    (''J7'', PadMapping 113 ''J7'' 64),
    (''J8'', PadMapping 114 ''J8'' 64),
    (''J9'', PadMapping 115 ''J9'' 64),
    (''J10'', PadMapping 116 ''J10'' 64),
    (''J11'', PadMapping 117 ''J11'' 64),
    (''J12'', PadMapping 118 ''J12'' 64)]"

section \<open>parse\<close>

record parse_options =
  bytesPerNote :: nat
  padsPerBank :: nat
  og :: bool

text \<open>The defaults of the constructor and of \<open>parse\<close>.\<close>

definition default_options :: parse_options where
  "default_options = \<lparr>bytesPerNote = 8, padsPerBank = 16, og = False\<rparr>"

record pattern =
  notes_p :: "Note list"
  bars :: int
  timeSignature :: int

text \<open>
  What the functions throw: the cursor's underflow, the three errors of the argument
  checks of \<open>fromMidi\<close>, and the \<open>TypeError\<close> of destructuring an undefined value.
  \<open>Unmodelled\<close> is no error of the source: it marks the inputs on which \<open>fromMidi\<close>
  hands something other than an integer (NaN, an infinity, \<open>undefined\<close>) to a write
  call, which a record of integers cannot hold; the model says nothing there.
\<close>

datatype error =
    Underflow
  | NoAudioMIDI
  | NoNoteMap
  | NoPatternPPQN
  | TypeError
  | Unmodelled

text \<open>The sample number of a record: OG and MKii differ in the bank switch values.\<close>

definition sampleNumber_of :: "bool \<Rightarrow> nat \<Rightarrow> int \<Rightarrow> int \<Rightarrow> int" where
  "sampleNumber_of is_og ppb mn bsw =
     (if is_og then
        (if bsw = 0 then mn - 46
         else if bsw = 64 then mn - 46 + (int ppb * 5)
         else 160)
      else
        (if bsw = 0 \<or> bsw = 64 then mn - 46
         else if bsw = 1 \<or> bsw = 65 then mn - 46 + (int ppb * 5)
         else 160))"

text \<open>
  The pad label of a sample number. \<open>Math.floor(padNumber / padsPerBank)\<close> is
  \<open>div\<close> on \<open>int\<close> (which rounds down). With \<open>padsPerBank = 0\<close> the quotient is
  infinite or NaN: the letter is the code unit 0 and the number prints as \<open>NaN\<close>.
\<close>

definition padLabel_of :: "nat \<Rightarrow> int \<Rightarrow> string" where
  "padLabel_of ppb sn =
     (let padNumber = sn - 1 in
      if ppb = 0 then String_fromCharCode 0 @ ''NaN''
      else
        let bankNumber = padNumber div int ppb;
            bankLetter = String_fromCharCode (65 + bankNumber);
            bankPadNumber = js_rem padNumber (int ppb) + 1
        in bankLetter @ String_of bankPadNumber)"

text \<open>One pass of the loop body: eight bytes, read field by field.\<close>

definition read_note :: "parse_options \<Rightarrow> buffer \<Rightarrow> (Note \<times> buffer) option" where
  "read_note opts b0 = do {
     (t, b1) \<leftarrow> readUInt8 b0;
     (mn, b2) \<leftarrow> readUInt8 b1;
     (bsw, b3) \<leftarrow> readUInt8 b2;
     (pm, b4) \<leftarrow> readUInt8 b3;
     (v, b5) \<leftarrow> readUInt8 b4;
     (u3, b6) \<leftarrow> readUInt8 b5;
     (len, b7) \<leftarrow> readUInt16 True b6;
     let sn = sampleNumber_of (og opts) (padsPerBank opts) mn bsw;
     Some (\<lparr>ticks = t, midiNote = mn, bankSwitch = bsw, pitchMode = pm, velocity = v,
             unknown3 = u3, length_t = len, sampleNumber = sn,
             padLabel = padLabel_of (padsPerBank opts) sn\<rparr>, b7)
   }"

text \<open>\<open>totalNotes = (this.remainingBytes() / bytesPerNote) - 2\<close>: no rounding.\<close>

definition totalNotes_of :: "nat \<Rightarrow> nat \<Rightarrow> number" where
  "totalNotes_of remaining bpn =
     (if bpn = 0 then (if remaining = 0 then NaN else Infinity)
      else Finite (real remaining / real bpn - 2))"

text \<open>\<open>while (i < totalNotes)\<close>: the notes read so far and the bytes left.\<close>

function parse_loop ::
  "parse_options \<Rightarrow> number \<Rightarrow> nat \<Rightarrow> buffer \<Rightarrow> Note list \<Rightarrow> (Note list \<times> buffer) option"
where
  "parse_loop opts totalNotes i b acc =
     (if less_number i totalNotes then
        (case read_note opts b of
           None \<Rightarrow> None
         | Some (n, b') \<Rightarrow> parse_loop opts totalNotes (i + 1) b' (acc @ [n]))
      else Some (acc, b))"
  by pat_completeness auto
termination
  by (relation "measure (\<lambda>(opts, totalNotes, i, b, acc). length b)")
     (auto simp: read_note_def readUInt8_def readUInt16_def Let_def
           split: list.splits Option.bind_splits)

definition parse :: "parse_options \<Rightarrow> buffer \<Rightarrow> error + pattern" where
  "parse opts input =
     (case parse_loop opts (totalNotes_of (remainingBytes input) (bytesPerNote opts)) 0 input [] of
        None \<Rightarrow> Inl Underflow
      | Some (ns, rest) \<Rightarrow>
          (case read 16 rest of
             None \<Rightarrow> Inl Underflow
           | Some (footer, _) \<Rightarrow>
               Inr \<lparr>notes_p = ns, bars = uint (footer ! 8), timeSignature = uint (footer ! 12)\<rparr>))"

declare parse_loop.simps [simp del]

text \<open>
  The record layout in the words of the format description: record \<open>j\<close> is the eight
  bytes from offset \<open>8 * j\<close>: ticks, midiNote, bankSwitch, pitchMode, velocity, a reserved
  byte and a little-endian 16-bit length.
\<close>

definition note_at :: "parse_options \<Rightarrow> buffer \<Rightarrow> nat \<Rightarrow> Note" where
  "note_at opts b j =
     (let sn = sampleNumber_of (og opts) (padsPerBank opts)
                 (uint (b ! (8 * j + 1))) (uint (b ! (8 * j + 2)))
      in \<lparr>ticks = uint (b ! (8 * j)),
          midiNote = uint (b ! (8 * j + 1)),
          bankSwitch = uint (b ! (8 * j + 2)),
          pitchMode = uint (b ! (8 * j + 3)),
          velocity = uint (b ! (8 * j + 4)),
          unknown3 = uint (b ! (8 * j + 5)),
          length_t = uint (b ! (8 * j + 6)) + 256 * uint (b ! (8 * j + 7)),
          sampleNumber = sn,
          padLabel = padLabel_of (padsPerBank opts) sn\<rparr>)"

section \<open>MIDI documents\<close>

text \<open>
  The part of an \<open>AudioMIDI\<close> document that the conversions read and write. The data
  of a note event is \<open>{ note, velocity, length }\<close>, as \<open>toMidi\<close> builds it (a note
  event without a \<open>length\<close> is not modelled); every other event has data without a
  \<open>velocity\<close> key. \<open>toMidi\<close> writes the note as \<open>String(midiNote)\<close> and
  \<open>fromMidi\<close> uses it as a key of its note map: the key is modelled by the number.
\<close>

datatype event_data =
    NoteData (data_note: nat) (data_velocity: int) (data_length: int)
  | OtherData

record event =
  absoluteTime :: int
  deltaTime :: int
  etype :: nat
  channel :: nat
  data :: event_data
  label :: string

datatype chunk = Header | Track (events: "event list")

record audio_midi =
  format :: nat
  trackCount :: nat
  timeDivision :: nat
  chunks :: "chunk list"

text \<open>
  The three event generators of \<open>@uttori/audio-midi\<close> that \<open>toMidi\<close> calls are not
  among the sources: they are parameters of the model.
\<close>

record generators =
  generateTempoEvent :: "nat \<Rightarrow> event"
  generateMetaStringEvent :: "nat \<Rightarrow> string \<Rightarrow> event"
  generateEndOfTrackEvent :: event

section \<open>toMidi\<close>

record toMidi_options =
  bpm :: "nat option"
  ppq :: nat
  fileName :: string
  noteMap :: "string \<rightharpoonup> nat"

definition noteOn :: "nat \<Rightarrow> int \<Rightarrow> Note \<Rightarrow> event" where
  "noteOn k t n =
     \<lparr>absoluteTime = t, deltaTime = 0, etype = 0x90, channel = 0,
      data = NoteData k (velocity n) (length_t n), label = ''Note On''\<rparr>"

definition noteOff :: "nat \<Rightarrow> int \<Rightarrow> Note \<Rightarrow> event" where
  "noteOff k t n =
     \<lparr>absoluteTime = t + length_t n, deltaTime = 0, etype = 0x80, channel = 0,
      data = NoteData k 0 (length_t n), label = ''Note Off''\<rparr>"

text \<open>
  The \<open>for\<close> loop over \<open>this.notes\<close>: the events pushed to \<open>allEvents\<close>, in the
  order of the pushes, from the running absolute time. A pad whose entry in the note map
  is missing or falsy (\<open>0\<close>) is skipped after its ticks are added.
\<close>

fun note_events :: "(string \<rightharpoonup> nat) \<Rightarrow> int \<Rightarrow> Note list \<Rightarrow> event list" where
  "note_events nm t [] = []"
| "note_events nm t (n # ns) =
     (let t' = t + ticks n in
      case nm (padLabel n) of
        None \<Rightarrow> note_events nm t' ns
      | Some k \<Rightarrow>
          if k = 0 then note_events nm t' ns
          else noteOn k t' n # (if length_t n > 0 then [noteOff k t' n] else [])
                 @ note_events nm t' ns)"

text \<open>The second loop: delta times from the sorted absolute times.\<close>

fun to_delta :: "int \<Rightarrow> event list \<Rightarrow> event list" where
  "to_delta lastAbs [] = []"
| "to_delta lastAbs (e # es) =
     e\<lparr>deltaTime := absoluteTime e - lastAbs\<rparr> # to_delta (absoluteTime e) es"

text \<open>\<open>Array.prototype.sort\<close> with a comparator is stable, as \<open>sort_key\<close> is.\<close>

definition allEvents :: "(string \<rightharpoonup> nat) \<Rightarrow> Note list \<Rightarrow> event list" where
  "allEvents nm ns = to_delta 0 (sort_key absoluteTime (note_events nm 0 ns))"

definition toMidi :: "generators \<Rightarrow> toMidi_options \<Rightarrow> Note list \<Rightarrow> audio_midi" where
  "toMidi gen opts ns =
     \<lparr>format = 1, trackCount = 1, timeDivision = ppq opts,
      chunks = [Track (
        (case bpm opts of
           None \<Rightarrow> []
         | Some b \<Rightarrow> if b = 0 then [] else [generateTempoEvent gen b])
        @ [generateMetaStringEvent gen 0x03 (''SP404 Pattern '' @ fileName opts)]
        @ allEvents (noteMap opts) ns
        @ [generateEndOfTrackEvent gen])]\<rparr>"

section \<open>fromMidi\<close>

text \<open>
  The output buffer. Every record of the file is written by seven calls in a row
  (six \<open>writeUInt8\<close> and one little-endian \<open>writeUInt16\<close>); the buffer is modelled as
  the list of these records, each field holding the number handed to the write call,
  followed by the 16 bytes of the footer (a \<open>Uint8Array\<close>). The buffer class is not
  among the sources: a number within the range of its field is the value stored, and
  what is stored for a number outside it (600 in a byte, 70000 in 16 bits) is not
  modelled.
\<close>

record pattern_buffer =
  records :: "raw_note list"
  footer :: "8 word list"

text \<open>A Note On event flattened out of a track.\<close>

record note_on =
  on_absoluteTime :: int
  on_note :: nat
  on_velocity :: int
  on_length :: int

text \<open>\<open>insertEmptyNotes\<close>: rest records of at most 255 ticks each.\<close>

definition maxTicksInGap :: int where
  "maxTicksInGap = 255"

definition emptyNote :: "int \<Rightarrow> raw_note" where
  "emptyNote ticksToInsert =
     \<lparr>ticks = ticksToInsert, midiNote = 128, bankSwitch = 0, pitchMode = 0, velocity = 0,
      unknown3 = 0, length_t = 0\<rparr>"

function insertEmptyNotes :: "int \<Rightarrow> raw_note list \<Rightarrow> raw_note list" where
  "insertEmptyNotes gap buf =
     (if gap > 0 then
        (let ticksToInsert = min gap maxTicksInGap
         in insertEmptyNotes (gap - ticksToInsert) (buf @ [emptyNote ticksToInsert]))
      else buf)"
  by pat_completeness auto
termination
  by (relation "measure (\<lambda>(gap, buf). nat gap)") (auto simp: maxTicksInGap_def Let_def)

declare insertEmptyNotes.simps [simp del]

text \<open>The Note On events of one track, from the running absolute time.\<close>

fun track_notes :: "int \<Rightarrow> event list \<Rightarrow> note_on list" where
  "track_notes t [] = []"
| "track_notes t (e # es) =
     (let t' = t + deltaTime e in
      (case data e of
         NoteData k v l \<Rightarrow>
           if etype e = 0x90 \<and> v > 0
           then [\<lparr>on_absoluteTime = t', on_note = k, on_velocity = v, on_length = l\<rparr>]
           else []
       | OtherData \<Rightarrow> [])
      @ track_notes t' es)"

definition flatten :: "chunk list \<Rightarrow> note_on list" where
  "flatten cs = concat (map (\<lambda>c. case c of Header \<Rightarrow> [] | Track es \<Rightarrow> track_notes 0 es) cs)"

record convert_state =
  buf :: "raw_note list"
  currentTime :: int
  totalTrackLength :: int
  lastAbsoluteTime :: int

text \<open>
  The table lookup \<open>og ? defaultMapOG[pad] : defaultMap[pad]\<close>, where \<open>pad\<close> is
  \<open>noteMap[note]\<close> and may be undefined. The table is an object literal, so a name of
  \<open>Object.prototype\<close> is found too: its value has neither a \<open>bankSwitch\<close> nor a
  \<open>midiNote\<close>.
\<close>

datatype pad_lookup = Entry PadMapping | Undefined | Inherited

definition object_prototype_names :: "string list" where
  "object_prototype_names =
     [''constructor'', ''__defineGetter__'', ''__defineSetter__'', ''hasOwnProperty'',
      ''__lookupGetter__'', ''__lookupSetter__'', ''isPrototypeOf'', ''propertyIsEnumerable'',
      ''toString'', ''valueOf'', ''__proto__'', ''toLocaleString'']"

definition lookup_pad :: "bool \<Rightarrow> string option \<Rightarrow> pad_lookup" where
  "lookup_pad is_og pad =
     (case pad of
        None \<Rightarrow> Undefined
      | Some l \<Rightarrow>
          (case map_of (if is_og then defaultMapOG else defaultMap) l of
             Some m \<Rightarrow> Entry m
           | None \<Rightarrow> if l \<in> set object_prototype_names then Inherited else Undefined))"

text \<open>
  The main loop over the sorted Note On events. Destructuring an undefined table entry
  throws a \<open>TypeError\<close>; from an inherited property both fields are \<open>undefined\<close>, and
  the write calls get no number.
\<close>

fun convert_events ::
  "bool \<Rightarrow> (nat \<rightharpoonup> string) \<Rightarrow> real \<Rightarrow> note_on list \<Rightarrow> convert_state \<Rightarrow> error + convert_state"
where
  "convert_events is_og nm conversionRatio [] s = Inr s"
| "convert_events is_og nm conversionRatio (e # es) s =
     (let tks = Math_round (real_of_int (on_absoluteTime e - lastAbsoluteTime s) * conversionRatio);
          gap = tks - currentTime s;
          buf1 = (if gap > 255 then insertEmptyNotes gap (buf s) else buf s)
      in case lookup_pad is_og (nm (on_note e)) of
           Undefined \<Rightarrow> Inl TypeError
         | Inherited \<Rightarrow> Inl Unmodelled
         | Entry m \<Rightarrow>
             (let correctedLength = Math_round (real_of_int (on_length e) * conversionRatio)
              in convert_events is_og nm conversionRatio es
                   \<lparr>buf = buf1 @ [\<lparr>ticks = tks, midiNote = pm_midiNote m,
                                   bankSwitch = pm_bankSwitch m, pitchMode = 0,
                                   velocity = on_velocity e, unknown3 = 64,
                                   length_t = correctedLength\<rparr>],
                    currentTime = currentTime s + tks,
                    totalTrackLength = totalTrackLength s + correctedLength,
                    lastAbsoluteTime = on_absoluteTime e\<rparr>))"

definition maxBars :: int where
  "maxBars = 64"

text \<open>Rounding to a bar: the buffer and the current time after it.\<close>

definition round_to_bar :: "int \<Rightarrow> convert_state \<Rightarrow> raw_note list \<times> int" where
  "round_to_bar ticksPerBar s =
     (if currentTime s = 0 \<and> totalTrackLength s > 0 then
        (insertEmptyNotes ticksPerBar (buf s), currentTime s)
      else
        (let remainder = js_rem (currentTime s) ticksPerBar in
         if remainder \<noteq> 0 then
           (let ticksToNextBar = ticksPerBar - remainder in
            if currentTime s + ticksToNextBar \<le> maxBars * ticksPerBar
            then (insertEmptyNotes ticksToNextBar (buf s), currentTime s + ticksToNextBar)
            else (buf s, maxBars * ticksPerBar))
         else (buf s, currentTime s)))"

text \<open>The footer: a \<open>Uint8Array(16)\<close>, so a stored number is taken modulo 256.\<close>

definition make_footer :: "bool \<Rightarrow> int \<Rightarrow> 8 word list" where
  "make_footer is_og bars_n =
     [0, 140, 0, 0, 0, 0, 0, 0,
      if is_og then 0 else word_of_int bars_n,
      if is_og then 2 else 0,
      0, 0, 0,
      if is_og then 0 else 128,
      if is_og then 0 else word_of_int bars_n,
      if is_og then 0 else 1]"

text \<open>
  \<open>fromMidi(audioMIDI, noteMap, patternPPQN, og)\<close>. An argument that fails its check
  (\<open>!noteMap\<close>, \<open>!patternPPQN\<close>, an \<open>audioMIDI\<close> that is no object with
  \<open>timeDivision\<close> and \<open>chunks\<close>) is \<open>None\<close>; a \<open>patternPPQN\<close> of 0 is falsy too.
  With a \<open>timeDivision\<close> of 0 the ratio is infinite: without a Note On event it is
  never used and the buffer is the footer alone; with one, the tick counts are infinite
  or NaN (\<open>Unmodelled\<close>).
\<close>

definition fromMidi ::
  "audio_midi option \<Rightarrow> (nat \<rightharpoonup> string) option \<Rightarrow> nat option \<Rightarrow> bool \<Rightarrow> error + pattern_buffer"
where
  "fromMidi audioMIDI note_map patternPPQN is_og =
     (case audioMIDI of
        None \<Rightarrow> Inl NoAudioMIDI
      | Some midi \<Rightarrow>
     (case note_map of
        None \<Rightarrow> Inl NoNoteMap
      | Some nm \<Rightarrow>
     (case patternPPQN of
        None \<Rightarrow> Inl NoPatternPPQN
      | Some p \<Rightarrow>
          if p = 0 then Inl NoPatternPPQN
          else
            (let midiPPQN = timeDivision midi;
                 conversionRatio = real p / real midiPPQN;
                 ticksPerBar = int p * 4;
                 sorted = sort_key on_absoluteTime (flatten (chunks midi))
             in if midiPPQN = 0 \<and> sorted \<noteq> [] then Inl Unmodelled
                else
                  (case convert_events is_og nm conversionRatio sorted
                          \<lparr>buf = [], currentTime = 0, totalTrackLength = 0,
                           lastAbsoluteTime = 0\<rparr> of
                     Inl err \<Rightarrow> Inl err
                   | Inr s \<Rightarrow>
                       (let (buf2, currentTime2) = round_to_bar ticksPerBar s;
                            bars_n = Math_round (real_of_int currentTime2 / real_of_int ticksPerBar)
                        in Inr \<lparr>records = buf2, footer = make_footer is_og bars_n\<rparr>))))))"

text \<open>The messages of the three errors \<open>fromMidi\<close> throws itself.\<close>

definition message :: "error \<Rightarrow> string option" where
  "message err =
     (if err = NoAudioMIDI then
        Some ''No audioMIDI provided, please provide an AudioMIDI instance.''
      else if err = NoNoteMap then
        Some ''No noteMap provided, please provide a mapping of MIDI notes to pads.''
      else if err = NoPatternPPQN then
        Some ''No patternPPQN provided, please provide a PPQN for the pattern: OG is 96, MKii is 480.''
      else None)"

section \<open>Inputs for the evaluations\<close>

text \<open>
  A Note On event of a track (its \<open>absoluteTime\<close> is not read by \<open>fromMidi\<close>), and a
  document of one track at 480 ticks per quarter note.
\<close>

definition note_on_event :: "int \<Rightarrow> nat \<Rightarrow> int \<Rightarrow> int \<Rightarrow> event" where
  "note_on_event dt k v l =
     \<lparr>absoluteTime = 0, deltaTime = dt, etype = 0x90, channel = 0, data = NoteData k v l,
      label = ''Note On''\<rparr>"

definition single_track :: "event list \<Rightarrow> audio_midi" where
  "single_track es = \<lparr>format = 1, trackCount = 1, timeDivision = 480, chunks = [Track es]\<rparr>"

text \<open>
  Generators whose meta events (type \<open>0xFF\<close>) stand at delta time 0, as the comment in
  \<open>toMidi\<close> has them (\<open>Optionally add tempo or other meta events at time 0\<close>).
\<close>

definition meta_event :: "string \<Rightarrow> event" where
  "meta_event l =
     \<lparr>absoluteTime = 0, deltaTime = 0, etype = 0xFF, channel = 0, data = OtherData, label = l\<rparr>"

definition meta_generators :: generators where
  "meta_generators =
     \<lparr>generateTempoEvent = (\<lambda>b. meta_event ''Set Tempo''),
      generateMetaStringEvent = (\<lambda>t s. meta_event s),
      generateEndOfTrackEvent = meta_event ''End of Track''\<rparr>"

text \<open>A parsed note of pad A1 and one of pad B1 (MKii, 16 pads per bank).\<close>

definition note_A1 :: "int \<Rightarrow> int \<Rightarrow> int \<Rightarrow> Note" where
  "note_A1 t v l =
     \<lparr>ticks = t, midiNote = 47, bankSwitch = 64, pitchMode = 0, velocity = v, unknown3 = 64,
      length_t = l, sampleNumber = 1, padLabel = ''A1''\<rparr>"

definition note_B1 :: "int \<Rightarrow> int \<Rightarrow> int \<Rightarrow> Note" where
  "note_B1 t v l =
     \<lparr>ticks = t, midiNote = 63, bankSwitch = 64, pitchMode = 0, velocity = v, unknown3 = 64,
      length_t = l, sampleNumber = 17, padLabel = ''B1''\<rparr>"

text \<open>Parsed notes of the pads F12 and G1 of the OG (12 pads per bank).\<close>

definition note_OG_F12 :: "int \<Rightarrow> int \<Rightarrow> int \<Rightarrow> Note" where
  "note_OG_F12 t v l =
     \<lparr>ticks = t, midiNote = 118, bankSwitch = 0, pitchMode = 0, velocity = v, unknown3 = 64,
      length_t = l, sampleNumber = 72, padLabel = ''F12''\<rparr>"

definition note_OG_G1 :: "int \<Rightarrow> int \<Rightarrow> int \<Rightarrow> Note" where
  "note_OG_G1 t v l =
     \<lparr>ticks = t, midiNote = 59, bankSwitch = 64, pitchMode = 0, velocity = v, unknown3 = 64,
      length_t = l, sampleNumber = 73, padLabel = ''G1''\<rparr>"

section \<open>Definitions for the statements\<close>

text \<open>The two derived fields of a note, as \<open>parse\<close> computes them from the stored ones.\<close>

definition derived :: "parse_options \<Rightarrow> Note \<Rightarrow> bool" where
  "derived opts n =
     (sampleNumber n = sampleNumber_of (og opts) (padsPerBank opts) (midiNote n) (bankSwitch n)
      \<and> padLabel n = padLabel_of (padsPerBank opts) (sampleNumber n))"

text \<open>
  What \<open>toMidi\<close> emits for one note at an absolute time, in the words of the
  description: nothing when the pad has no entry in the note map; otherwise a Note On
  at the absolute time and, when the length is positive, a Note Off at the absolute
  time plus the length. The events are written out field by field.
\<close>

definition emitted :: "(string \<rightharpoonup> nat) \<Rightarrow> Note \<Rightarrow> int \<Rightarrow> event list" where
  "emitted nm n t =
     (case nm (padLabel n) of
        None \<Rightarrow> []
      | Some k \<Rightarrow>
          \<lparr>absoluteTime = t, deltaTime = 0, etype = 0x90, channel = 0,
           data = NoteData k (velocity n) (length_t n), label = ''Note On''\<rparr>
          # (if 0 < length_t n
             then [\<lparr>absoluteTime = t + length_t n, deltaTime = 0, etype = 0x80, channel = 0,
                    data = NoteData k 0 (length_t n), label = ''Note Off''\<rparr>]
             else []))"

text \<open>
  The events of a whole pattern: those of each note, in the order of the notes, each
  note at its accumulated absolute time (the sum of the ticks up to it).
\<close>

definition emitted_all :: "(string \<rightharpoonup> nat) \<Rightarrow> Note list \<Rightarrow> event list" where
  "emitted_all nm ns =
     concat (map (\<lambda>i. emitted nm (ns ! i) (sum_list (map ticks (take (Suc i) ns))))
               [0..<length ns])"

text \<open>The Note On events with a positive velocity, as \<open>fromMidi\<close> keeps them.\<close>

definition is_on :: "event \<Rightarrow> bool" where
  "is_on e = (case data e of NoteData k v l \<Rightarrow> etype e = 0x90 \<and> v > 0 | OtherData \<Rightarrow> False)"

definition to_on :: "event \<Rightarrow> note_on" where
  "to_on e =
     (case data e of
        NoteData k v l \<Rightarrow>
          \<lparr>on_absoluteTime = absoluteTime e, on_note = k, on_velocity = v, on_length = l\<rparr>
      | OtherData \<Rightarrow>
          \<lparr>on_absoluteTime = absoluteTime e, on_note = 0, on_velocity = 0, on_length = 0\<rparr>)"

text \<open>The Note On events a pattern whose pads are all mapped gives rise to.\<close>

fun expected_ons :: "(string \<rightharpoonup> nat) \<Rightarrow> int \<Rightarrow> Note list \<Rightarrow> note_on list" where
  "expected_ons nm t [] = []"
| "expected_ons nm t (n # ns) =
     \<lparr>on_absoluteTime = t + ticks n, on_note = the (nm (padLabel n)),
      on_velocity = velocity n, on_length = length_t n\<rparr>
     # expected_ons nm (t + ticks n) ns"

text \<open>
  The pad table of a hardware revision, and the pads per bank that \<open>parse\<close> is
  given for it.
\<close>

definition pad_table :: "bool \<Rightarrow> (string \<times> PadMapping) list" where
  "pad_table is_og = (if is_og then defaultMapOG else defaultMap)"

definition hardware_pads :: "bool \<Rightarrow> nat" where
  "hardware_pads is_og = (if is_og then 12 else 16)"


text \<open>
  The pads whose table entry \<open>parse\<close> reads back as the same pad: every pad of the
  MKii table, and the banks A to F (the first 72 entries) of the OG table.
\<close>

definition round_trip_pads :: "bool \<Rightarrow> string list" where
  "round_trip_pads is_og =
     (if is_og then map fst (take 72 defaultMapOG) else map fst defaultMap)"

text \<open>
  A pad reads back: it has a table entry, the entry's two numbers are bytes, and
  \<open>parse\<close> derives the pad's own label from them.
\<close>

definition reads_back :: "bool \<Rightarrow> string \<Rightarrow> bool" where
  "reads_back is_og l =
     (case map_of (pad_table is_og) l of
        None \<Rightarrow> False
      | Some m \<Rightarrow>
          padLabel_of (hardware_pads is_og)
            (sampleNumber_of is_og (hardware_pads is_og) (pm_midiNote m) (pm_bankSwitch m)) = l
          \<and> 0 \<le> pm_midiNote m \<and> pm_midiNote m \<le> 255
          \<and> 0 \<le> pm_bankSwitch m \<and> pm_bankSwitch m \<le> 255)"

text \<open>The record \<open>fromMidi\<close> writes for a note of a pad of the table at ratio 1.\<close>

definition written :: "bool \<Rightarrow> Note \<Rightarrow> raw_note" where
  "written is_og n =
     \<lparr>ticks = ticks n,
      midiNote = pm_midiNote (the (map_of (pad_table is_og) (padLabel n))),
      bankSwitch = pm_bankSwitch (the (map_of (pad_table is_og) (padLabel n))),
      pitchMode = 0, velocity = velocity n, unknown3 = 64, length_t = length_t n\<rparr>"

text \<open>
  What \<open>parse\<close> (with the options of the hardware revision) derives from a written
  record, with the fields a round trip compares: pad label, ticks, velocity and length.
\<close>

definition written_key :: "bool \<Rightarrow> raw_note \<Rightarrow> string \<times> int \<times> int \<times> int" where
  "written_key is_og r =
     (padLabel_of (hardware_pads is_og)
        (sampleNumber_of is_og (hardware_pads is_og) (midiNote r) (bankSwitch r)),
      ticks r, velocity r, length_t r)"

definition note_key :: "Note \<Rightarrow> string \<times> int \<times> int \<times> int" where
  "note_key n = (padLabel n, ticks n, velocity n, length_t n)"

text \<open>
  A record whose numbers all lie in the range of their fields (a byte each, 16 bits
  for the length): what is stored for it is the numbers themselves.
\<close>

definition fits :: "raw_note \<Rightarrow> bool" where
  "fits r =
     (0 \<le> ticks r \<and> ticks r \<le> 255 \<and> 0 \<le> midiNote r \<and> midiNote r \<le> 255
      \<and> 0 \<le> bankSwitch r \<and> bankSwitch r \<le> 255 \<and> 0 \<le> pitchMode r \<and> pitchMode r \<le> 255
      \<and> 0 \<le> velocity r \<and> velocity r \<le> 255 \<and> 0 \<le> unknown3 r \<and> unknown3 r \<le> 255
      \<and> 0 \<le> length_t r \<and> length_t r \<le> 65535)"

section \<open>Properties of parse\<close>

subsection \<open>The record loop on a well-formed buffer\<close>

lemma read_note_cons:
  "read_note opts (x0 # x1 # x2 # x3 # x4 # x5 # x6 # x7 # rest) =
     Some (note_at opts (x0 # x1 # x2 # x3 # x4 # x5 # x6 # x7 # rest) 0, rest)"
  by (simp add: read_note_def readUInt8_def readUInt16_def note_at_def Let_def)

lemma eight_bytes:
  assumes "8 \<le> length (b :: 'a list)"
  shows "\<exists>x0 x1 x2 x3 x4 x5 x6 x7 rest. b = x0 # x1 # x2 # x3 # x4 # x5 # x6 # x7 # rest"
proof -
  have "Suc (Suc (Suc (Suc (Suc (Suc (Suc (Suc 0))))))) \<le> length b"
    using assms by simp
  then show ?thesis
    by (auto simp: Suc_le_length_iff)
qed

lemma read_note_some:
  assumes "8 \<le> length b"
  shows "read_note opts b = Some (note_at opts b 0, drop 8 b)"
proof -
  obtain x0 x1 x2 x3 x4 x5 x6 x7 rest
    where b: "b = x0 # x1 # x2 # x3 # x4 # x5 # x6 # x7 # rest"
    using eight_bytes [OF assms] by blast
  show ?thesis
    unfolding b by (simp add: read_note_cons)
qed

lemma note_at_drop:
  assumes "8 \<le> length b"
  shows "note_at opts (drop 8 b) j = note_at opts b (Suc j)"
  using assms by (simp add: note_at_def add.commute add.left_commute)

lemma parse_loop_exact:
  "length b = 8 * k + 16 \<Longrightarrow>
   parse_loop opts (Finite (real (i + k))) i b acc =
     Some (acc @ map (note_at opts b) [0..<k], drop (8 * k) b)"
proof (induction k arbitrary: i b acc)
  case 0
  show ?case by (subst parse_loop.simps) simp
next
  case (Suc k)
  have len8: "8 \<le> length b" using Suc.prems by simp
  have len': "length (drop 8 b) = 8 * k + 16" using Suc.prems by simp
  have tot: "Finite (real (i + Suc k)) = Finite (real ((i + 1) + k))" by simp
  have step: "parse_loop opts (Finite (real (i + Suc k))) i b acc =
      parse_loop opts (Finite (real (i + Suc k))) (i + 1) (drop 8 b) (acc @ [note_at opts b 0])"
    by (subst parse_loop.simps) (simp add: read_note_some [OF len8])
  have "parse_loop opts (Finite (real ((i + 1) + k))) (i + 1) (drop 8 b) (acc @ [note_at opts b 0]) =
      Some ((acc @ [note_at opts b 0]) @ map (note_at opts (drop 8 b)) [0..<k],
            drop (8 * k) (drop 8 b))"
    by (rule Suc.IH [OF len'])
  then have "parse_loop opts (Finite (real (i + Suc k))) i b acc =
      Some ((acc @ [note_at opts b 0]) @ map (note_at opts (drop 8 b)) [0..<k],
            drop (8 * k) (drop 8 b))"
    using step tot by simp
  moreover have "map (note_at opts (drop 8 b)) [0..<k] = map (\<lambda>j. note_at opts b (Suc j)) [0..<k]"
    by (simp add: note_at_drop [OF len8])
  moreover have "drop (8 * k) (drop 8 b) = drop (8 * Suc k) b"
    by (simp add: add.commute)
  ultimately show ?case
    by (simp add: map_upt_Suc del: upt_Suc)
qed

lemma totalNotes_exact: "totalNotes_of (8 * k + 16) 8 = Finite (real k)"
  by (simp add: totalNotes_of_def field_simps)

lemma parse_wellformed:
  assumes "bytesPerNote opts = 8" and "length input = 8 * k + 16"
  shows "parse opts input =
    Inr \<lparr>notes_p = map (note_at opts input) [0..<k],
         bars = uint (input ! (8 * k + 8)),
         timeSignature = uint (input ! (8 * k + 12))\<rparr>"
proof -
  have loop: "parse_loop opts (totalNotes_of (remainingBytes input) (bytesPerNote opts)) 0 input [] =
      Some (map (note_at opts input) [0..<k], drop (8 * k) input)"
    using parse_loop_exact [of input k opts 0 "[]"] assms
    by (simp add: remainingBytes_def totalNotes_exact)
  have foot: "read 16 (drop (8 * k) input) = Some (drop (8 * k) input, [])"
    using assms by (simp add: read_def)
  show ?thesis
    using assms loop foot by (simp add: parse_def)
qed

lemma wellformed_length:
  assumes "8 dvd length (input :: buffer)" and "16 \<le> length input"
  shows "length input = 8 * (length input div 8 - 2) + 16"
proof -
  from assms(1) obtain m where m: "length input = 8 * m" by (auto simp: dvd_def)
  with assms(2) have "2 \<le> m" by simp
  with m show ?thesis by simp
qed

subsection \<open>The derived fields of every parsed note\<close>

lemma read_note_derived:
  assumes "read_note opts b = Some (n, b')"
  shows "derived opts n"
  using assms
  by (auto simp: derived_def read_note_def Let_def split: Option.bind_splits)

lemma parse_loop_derived:
  assumes "parse_loop opts tn i b acc = Some (ns, r)"
    and "list_all (derived opts) acc"
  shows "list_all (derived opts) ns"
  using assms
proof (induction opts tn i b acc rule: parse_loop.induct)
  case (1 opts totalNotes i b acc)
  show ?case
  proof (cases "less_number i totalNotes")
    case False
    with "1.prems" show ?thesis
      by (subst (asm) parse_loop.simps) simp
  next
    case True
    from "1.prems"(1) True obtain n b'
      where rd: "read_note opts b = Some (n, b')"
        and rec: "parse_loop opts totalNotes (i + 1) b' (acc @ [n]) = Some (ns, r)"
      by (subst (asm) parse_loop.simps) (auto split: option.splits)
    have "list_all (derived opts) (acc @ [n])"
      using "1.prems"(2) read_note_derived [OF rd] by simp
    then show ?thesis
      using "1.IH" [OF True rd refl rec] by simp
  qed
qed

lemma parse_derived:
  assumes "parse opts input = Inr p" and "n \<in> set (notes_p p)"
  shows "derived opts n"
proof -
  from assms(1) obtain r
    where loop: "parse_loop opts (totalNotes_of (remainingBytes input) (bytesPerNote opts)) 0 input [] =
                   Some (notes_p p, r)"
    by (auto simp: parse_def split: option.splits)
  have "list_all (derived opts) (notes_p p)"
    by (rule parse_loop_derived [OF loop]) simp
  with assms(2) show ?thesis
    by (simp add: list_all_iff)
qed

lemma defaultMap_labels:
  "list_all (\<lambda>(l, e). padLabel_of 16 (sampleNumber_of False 16 (pm_midiNote e) (pm_bankSwitch e)) = l)
     defaultMap"
  by code_simp

lemma padLabel_B1: "padLabel_of 16 17 = ''B1''"
  by code_simp

lemma defaultMap_J16: "map_of defaultMap ''J16'' = Some (PadMapping 126 ''J16'' 65)"
  by code_simp

subsection \<open>Record count and layout\<close>

text \<open>
  C9, as the code has it. The claim reads \<open>floor(totalBytes / 8) - 2\<close> records for
  every buffer. The loop bound is the unrounded quotient, so the count is that only when
  the length is a multiple of 8 (and at least 16, the footer): then \<open>parse\<close> returns
  exactly \<open>totalBytes / 8 - 2\<close> notes, note \<open>j\<close> decoded from the eight bytes at
  \<open>8 * j\<close> in the order ticks, midiNote, bankSwitch, pitchMode, velocity, reserved,
  little-endian length, and the 16 bytes that follow them are the footer (bar count at
  its byte 8, time signature at its byte 12).
\<close>

theorem parse_reads_records:
  assumes "bytesPerNote opts = 8" and "8 dvd length input" and "16 \<le> length input"
  shows "\<exists>p. parse opts input = Inr p
           \<and> int (length (notes_p p)) = int (length input) div 8 - 2
           \<and> notes_p p = map (note_at opts input) [0..<length (notes_p p)]
           \<and> 8 * length (notes_p p) + 16 = length input
           \<and> bars p = uint (input ! (8 * length (notes_p p) + 8))
           \<and> timeSignature p = uint (input ! (8 * length (notes_p p) + 12))"
proof -
  define k where "k = length input div 8 - 2"
  have len: "length input = 8 * k + 16"
    unfolding k_def using assms(2,3) by (rule wellformed_length)
  have p: "parse opts input =
      Inr \<lparr>notes_p = map (note_at opts input) [0..<k],
           bars = uint (input ! (8 * k + 8)),
           timeSignature = uint (input ! (8 * k + 12))\<rparr>"
    using assms(1) len by (rule parse_wellformed)
  have "int k = int (length input) div 8 - 2"
    using len by simp
  with p len show ?thesis by simp
qed

theorem parse_reads_records_witness:
  "bytesPerNote default_options = 8
   \<and> 8 dvd length [0, 47, 64, 0, 127, 64, 96, 0, 0, 140, 0, 0, 0, 0, 0, 0, 1, 0, 0, 0, 0, 128, 1, 1 :: 8 word]
   \<and> 16 \<le> length [0, 47, 64, 0, 127, 64, 96, 0, 0, 140, 0, 0, 0, 0, 0, 0, 1, 0, 0, 0, 0, 128, 1, 1 :: 8 word]
   \<and> (\<exists>p. parse default_options
             [0, 47, 64, 0, 127, 64, 96, 0, 0, 140, 0, 0, 0, 0, 0, 0, 1, 0, 0, 0, 0, 128, 1, 1] = Inr p
         \<and> length (notes_p p) = 1 \<and> bars p = 1 \<and> timeSignature p = 0)"
proof -
  let ?input = "[0, 47, 64, 0, 127, 64, 96, 0, 0, 140, 0, 0, 0, 0, 0, 0, 1, 0, 0, 0, 0, 128, 1, 1 :: 8 word]"
  have a: "bytesPerNote default_options = 8" by (simp add: default_options_def)
  have b: "8 dvd length ?input" by code_simp
  have c: "16 \<le> length ?input" by code_simp
  from parse_reads_records [OF a b c]
  obtain p where p: "parse default_options ?input = Inr p"
    and n: "int (length (notes_p p)) = int (length ?input) div 8 - 2"
    and f: "bars p = uint (?input ! (8 * length (notes_p p) + 8))"
           "timeSignature p = uint (?input ! (8 * length (notes_p p) + 12))"
    by blast
  from n have n1: "length (notes_p p) = 1" by simp
  from f have "bars p = 1" "timeSignature p = 0"
    unfolding n1 by simp_all
  with p n1 have "\<exists>p. parse default_options ?input = Inr p
         \<and> length (notes_p p) = 1 \<and> bars p = 1 \<and> timeSignature p = 0"
    by (intro exI [of _ p]) simp
  with a b c show ?thesis by (intro conjI)
qed

text \<open>
  C9 as stated fails on a 20-byte buffer: \<open>20 / 8 - 2 = 0.5\<close>, so the loop runs once
  and reads one record where \<open>floor(20 / 8) - 2 = 0\<close>; the footer read then finds 12
  bytes.
\<close>

theorem parse_count_counterexample:
  "map_option (length \<circ> fst)
     (parse_loop default_options
        (totalNotes_of
           (remainingBytes [0, 0, 0, 0, 0, 0, 0, 0, 0, 0, 0, 0, 0, 0, 0, 0, 0, 0, 0, 0])
           (bytesPerNote default_options))
        0 [0, 0, 0, 0, 0, 0, 0, 0, 0, 0, 0, 0, 0, 0, 0, 0, 0, 0, 0, 0] []) = Some 1
   \<and> int (length [0, 0, 0, 0, 0, 0, 0, 0, 0, 0, 0, 0, 0, 0, 0, 0, 0, 0, 0, 0 :: 8 word]) div 8 - 2 = 0
   \<and> parse default_options [0, 0, 0, 0, 0, 0, 0, 0, 0, 0, 0, 0, 0, 0, 0, 0, 0, 0, 0, 0] = Inl Underflow"
proof -
  let ?input = "[0, 0, 0, 0, 0, 0, 0, 0, 0, 0, 0, 0, 0, 0, 0, 0, 0, 0, 0, 0 :: 8 word]"
  let ?rest = "[0, 0, 0, 0, 0, 0, 0, 0, 0, 0, 0, 0 :: 8 word]"
  let ?n = "note_at default_options ?input 0"
  have tn: "totalNotes_of (remainingBytes ?input) (bytesPerNote default_options) = Finite (1 / 2)"
    by (simp add: totalNotes_of_def remainingBytes_def default_options_def)
  have two: "parse_loop default_options (Finite (1 / 2)) (Suc 0) ?rest [?n] = Some ([?n], ?rest)"
    by (subst parse_loop.simps) simp
  have one: "parse_loop default_options (Finite (1 / 2)) 0 ?input [] = Some ([?n], ?rest)"
    by (subst parse_loop.simps) (simp add: read_note_cons two)
  have foot: "read 16 ?rest = None"
    by (simp add: read_def)
  have "parse default_options ?input = Inl Underflow"
    by (simp add: parse_def tn one foot)
  moreover have "int (length ?input) div 8 - 2 = 0"
    by simp
  ultimately show ?thesis
    by (simp add: tn one)
qed

subsection \<open>Unrecognized bank switch\<close>




subsection \<open>Pad labels\<close>

text \<open>
  C8: the record with midiNote 63 and bankSwitch 64, parsed with \<open>og = false\<close> and
  \<open>padsPerBank = 16\<close>, has sampleNumber 17 and padLabel B1.
\<close>

theorem parse_B1:
  assumes "length ftr = 16"
  shows "\<exists>p. parse \<lparr>bytesPerNote = 8, padsPerBank = 16, og = False\<rparr>
               (t # 63 # 64 # pm # v # u # l0 # l1 # ftr) = Inr p
           \<and> map sampleNumber (notes_p p) = [17]
           \<and> map padLabel (notes_p p) = [''B1'']"
proof -
  let ?opts = "\<lparr>bytesPerNote = 8, padsPerBank = 16, og = False\<rparr>"
  let ?input = "t # 63 # 64 # pm # v # u # l0 # l1 # ftr"
  have "length ?input = 8 * 1 + 16" using assms by simp
  then have "parse ?opts ?input =
      Inr \<lparr>notes_p = map (note_at ?opts ?input) [0..<1],
           bars = uint (?input ! (8 * 1 + 8)),
           timeSignature = uint (?input ! (8 * 1 + 12))\<rparr>"
    by (intro parse_wellformed) simp_all
  moreover have "sampleNumber (note_at ?opts ?input 0) = 17"
    by (simp add: note_at_def sampleNumber_of_def)
  moreover have "padLabel (note_at ?opts ?input 0) = ''B1''"
    by (simp add: note_at_def sampleNumber_of_def padLabel_B1)
  ultimately show ?thesis by simp
qed

theorem parse_B1_witness:
  "length [0, 140, 0, 0, 0, 0, 0, 0, 1, 0, 0, 0, 0, 128, 1, 1 :: 8 word] = 16
   \<and> (\<exists>p. parse \<lparr>bytesPerNote = 8, padsPerBank = 16, og = False\<rparr>
         [0, 63, 64, 0, 127, 64, 96, 0, 0, 140, 0, 0, 0, 0, 0, 0, 1, 0, 0, 0, 0, 128, 1, 1] = Inr p
       \<and> map sampleNumber (notes_p p) = [17]
       \<and> map padLabel (notes_p p) = [''B1''])"
  using parse_B1 [of "[0, 140, 0, 0, 0, 0, 0, 0, 1, 0, 0, 0, 0, 128, 1, 1]" 0 0 127 64 96 0]
  by simp

text \<open>
  C10: the label derivation of \<open>parse\<close> is a left inverse of \<open>defaultMap\<close>. A parsed
  note (\<open>og = false\<close>, \<open>padsPerBank = 16\<close>) whose midiNote and bankSwitch are those of
  the table entry of a label \<open>L\<close> has the padLabel \<open>L\<close>.
\<close>

theorem padLabel_left_inverse:
  assumes "parse \<lparr>bytesPerNote = bpn, padsPerBank = 16, og = False\<rparr> input = Inr p"
    and "n \<in> set (notes_p p)"
    and "map_of defaultMap L = Some e"
    and "midiNote n = pm_midiNote e"
    and "bankSwitch n = pm_bankSwitch e"
  shows "padLabel n = L"
proof -
  have "derived \<lparr>bytesPerNote = bpn, padsPerBank = 16, og = False\<rparr> n"
    using assms(1,2) by (rule parse_derived)
  then have lab: "padLabel n = padLabel_of 16 (sampleNumber_of False 16 (midiNote n) (bankSwitch n))"
    by (simp add: derived_def)
  have "(L, e) \<in> set defaultMap"
    using assms(3) by (rule map_of_SomeD)
  with defaultMap_labels
  have "padLabel_of 16 (sampleNumber_of False 16 (pm_midiNote e) (pm_bankSwitch e)) = L"
    by (auto simp: list_all_iff)
  with lab assms(4,5) show ?thesis by simp
qed

theorem padLabel_left_inverse_witness:
  "parse \<lparr>bytesPerNote = 8, padsPerBank = 16, og = False\<rparr>
      [0, 126, 65, 0, 127, 64, 96, 0, 0, 140, 0, 0, 0, 0, 0, 0, 1, 0, 0, 0, 0, 128, 1, 1] =
     Inr \<lparr>notes_p = [\<lparr>ticks = 0, midiNote = 126, bankSwitch = 65, pitchMode = 0, velocity = 127,
                       unknown3 = 64, length_t = 96, sampleNumber = 160, padLabel = ''J16''\<rparr>],
           bars = 1, timeSignature = 0\<rparr>
   \<and> map_of defaultMap ''J16'' = Some (PadMapping 126 ''J16'' 65)"
proof -
  let ?opts = "\<lparr>bytesPerNote = 8, padsPerBank = 16, og = False\<rparr>"
  let ?input = "[0, 126, 65, 0, 127, 64, 96, 0, 0, 140, 0, 0, 0, 0, 0, 0, 1, 0, 0, 0, 0, 128, 1, 1 :: 8 word]"
  let ?n = "note_at ?opts ?input 0"
  have "length ?input = 8 * 1 + 16" by simp
  then have p: "parse ?opts ?input =
      Inr \<lparr>notes_p = map (note_at ?opts ?input) [0..<1],
           bars = uint (?input ! (8 * 1 + 8)),
           timeSignature = uint (?input ! (8 * 1 + 12))\<rparr>"
    by (intro parse_wellformed) simp_all
  have e: "map_of defaultMap ''J16'' = Some (PadMapping 126 ''J16'' 65)"
    by (rule defaultMap_J16)
  have "padLabel ?n = ''J16''"
    by (rule padLabel_left_inverse [OF p _ e]) (simp_all add: note_at_def Let_def)
  then have "?n = \<lparr>ticks = 0, midiNote = 126, bankSwitch = 65, pitchMode = 0, velocity = 127,
                    unknown3 = 64, length_t = 96, sampleNumber = 160, padLabel = ''J16''\<rparr>"
    by (simp add: note_at_def sampleNumber_of_def Let_def)
  with p e show ?thesis by simp
qed

section \<open>Properties of toMidi\<close>

lemma note_events_Cons:
  assumes "nm (padLabel n) \<noteq> Some 0"
  shows "note_events nm t (n # ns) = emitted nm n (t + ticks n) @ note_events nm (t + ticks n) ns"
  using assms
  by (simp add: emitted_def noteOn_def noteOff_def Let_def split: option.splits)

lemma note_events_emitted:
  assumes "\<forall>n\<in>set ns. nm (padLabel n) \<noteq> Some 0"
  shows "note_events nm t ns =
     concat (map (\<lambda>i. emitted nm (ns ! i) (t + sum_list (map ticks (take (Suc i) ns))))
               [0..<length ns])"
  using assms
proof (induction ns arbitrary: t)
  case Nil
  show ?case by simp
next
  case (Cons n ns)
  have up: "[0..<length (n # ns)] = 0 # map Suc [0..<length ns]"
    by (simp add: upt_conv_Cons map_Suc_upt del: upt_Suc)
  have hd: "note_events nm t (n # ns) =
      emitted nm n (t + ticks n) @ note_events nm (t + ticks n) ns"
    using Cons.prems by (intro note_events_Cons) simp
  have tl: "note_events nm (t + ticks n) ns =
     concat (map (\<lambda>i. emitted nm (ns ! i) (t + ticks n + sum_list (map ticks (take (Suc i) ns))))
               [0..<length ns])"
    using Cons.prems by (intro Cons.IH) simp
  show ?case
    unfolding hd tl up by (simp add: comp_def add.assoc)
qed

lemma note_events_lower:
  assumes "\<forall>n\<in>set ns. 0 \<le> ticks n"
  shows "\<forall>e\<in>set (note_events nm t ns). t \<le> absoluteTime e"
  using assms
proof (induction ns arbitrary: t)
  case Nil
  show ?case by simp
next
  case (Cons n ns)
  have "\<forall>e\<in>set (note_events nm (t + ticks n) ns). t + ticks n \<le> absoluteTime e"
    using Cons.prems by (intro Cons.IH) simp
  moreover have "0 \<le> ticks n" using Cons.prems by simp
  ultimately show ?case
    by (auto simp: Let_def noteOn_def noteOff_def split: option.splits if_splits)
qed

lemma note_events_deltaTime:
  "\<forall>e\<in>set (note_events nm t ns). deltaTime e = 0"
  by (induction ns arbitrary: t)
     (auto simp: Let_def noteOn_def noteOff_def split: option.splits if_splits)

lemma to_delta_length: "length (to_delta l es) = length es"
  by (induction es arbitrary: l) auto

lemma to_delta_absoluteTime: "map absoluteTime (to_delta l es) = map absoluteTime es"
  by (induction es arbitrary: l) auto

lemma to_delta_nth:
  "i < length es \<Longrightarrow>
   to_delta l es ! i =
     (es ! i)\<lparr>deltaTime := absoluteTime (es ! i) - (if i = 0 then l else absoluteTime (es ! (i - 1)))\<rparr>"
proof (induction es arbitrary: l i)
  case Nil
  then show ?case by simp
next
  case (Cons e es)
  show ?case
  proof (cases i)
    case 0
    then show ?thesis by simp
  next
    case (Suc j)
    with Cons.prems have "j < length es" by simp
    from Cons.IH [OF this, of "absoluteTime e"] Suc show ?thesis
      by (cases j) simp_all
  qed
qed

lemma to_delta_prefix_sum:
  "i < length es \<Longrightarrow>
   sum_list (map deltaTime (take (Suc i) (to_delta l es))) = absoluteTime (es ! i) - l"
proof (induction es arbitrary: l i)
  case Nil
  then show ?case by simp
next
  case (Cons e es)
  show ?case
  proof (cases i)
    case 0
    then show ?thesis by simp
  next
    case (Suc j)
    with Cons.prems have "j < length es" by simp
    from Cons.IH [OF this, of "absoluteTime e"] Suc show ?thesis by simp
  qed
qed

lemma to_delta_nonneg:
  "sorted (map absoluteTime es) \<Longrightarrow> \<forall>e\<in>set es. l \<le> absoluteTime e \<Longrightarrow>
   \<forall>d\<in>set (to_delta l es). 0 \<le> deltaTime d"
  by (induction es arbitrary: l) auto

lemma to_delta_mset:
  "image_mset (deltaTime_update (\<lambda>_. 0)) (mset (to_delta l es)) =
     image_mset (deltaTime_update (\<lambda>_. 0)) (mset es)"
  by (induction es arbitrary: l) auto

text \<open>
  C5, as the code has it. \<open>toMidi\<close> emits nothing for a note whose pad has no entry in
  the note map (its ticks still count). For a pattern without negative ticks and without
  a pad mapped to 0: the events built are, note by note, a Note On at the accumulated
  absolute time and, exactly when the length is positive, a Note Off at that time plus
  the length; the note events of the track are these events, sorted by absolute time,
  each with the delta time \<open>abs[i] - abs[i-1]\<close> (from 0); every delta time is at least
  0, and the sum of the delta times up to an event is its absolute time.
\<close>

theorem toMidi_events:
  assumes "\<forall>n\<in>set ns. 0 \<le> ticks n \<and> nm (padLabel n) \<noteq> Some 0"
  shows "note_events nm 0 ns = emitted_all nm ns
    \<and> mset (map (deltaTime_update (\<lambda>_. 0)) (allEvents nm ns)) = mset (emitted_all nm ns)
    \<and> map absoluteTime (allEvents nm ns) = sort (map absoluteTime (emitted_all nm ns))
    \<and> (\<forall>i<length (allEvents nm ns).
           deltaTime (allEvents nm ns ! i) =
             absoluteTime (allEvents nm ns ! i)
               - (if i = 0 then 0 else absoluteTime (allEvents nm ns ! (i - 1))))
    \<and> (\<forall>e\<in>set (allEvents nm ns). 0 \<le> deltaTime e)
    \<and> (\<forall>i<length (allEvents nm ns).
           sum_list (map deltaTime (take (Suc i) (allEvents nm ns))) =
             absoluteTime (allEvents nm ns ! i))
    \<and> (\<exists>pre. chunks (toMidi gen opts ns) =
           [Track (pre @ allEvents (noteMap opts) ns @ [generateEndOfTrackEvent gen])])"
proof -
  let ?evs = "note_events nm 0 ns"
  let ?sorted = "sort_key absoluteTime ?evs"
  have all: "allEvents nm ns = to_delta 0 ?sorted"
    by (simp add: allEvents_def)
  have tk: "\<forall>n\<in>set ns. 0 \<le> ticks n"
    and mapped: "\<forall>n\<in>set ns. nm (padLabel n) \<noteq> Some 0"
    using assms by simp_all
  have c1: "note_events nm 0 ns = emitted_all nm ns"
    using note_events_emitted [OF mapped, of 0] by (simp add: emitted_all_def)
  have same: "map (deltaTime_update (\<lambda>_. 0)) ?evs = ?evs"
    using note_events_deltaTime [of nm 0 ns] by (simp add: map_idI)
  have "mset (map (deltaTime_update (\<lambda>_. 0)) (allEvents nm ns)) =
          image_mset (deltaTime_update (\<lambda>_. 0)) (mset ?sorted)"
    by (simp add: all to_delta_mset)
  also have "\<dots> = mset (map (deltaTime_update (\<lambda>_. 0)) ?evs)"
    by simp
  finally have "mset (map (deltaTime_update (\<lambda>_. 0)) (allEvents nm ns)) = mset ?evs"
    by (simp only: same)
  then have c2: "mset (map (deltaTime_update (\<lambda>_. 0)) (allEvents nm ns)) = mset (emitted_all nm ns)"
    by (simp only: c1)
  have abs: "map absoluteTime (allEvents nm ns) = map absoluteTime ?sorted"
    by (simp add: all to_delta_absoluteTime)
  have srt: "sorted (map absoluteTime ?sorted)"
    by (rule sorted_sort_key)
  have "sort (map absoluteTime ?evs) = map absoluteTime ?sorted"
    using _ srt by (rule properties_for_sort) simp
  then have "map absoluteTime (allEvents nm ns) = sort (map absoluteTime ?evs)"
    by (simp only: abs)
  then have c3: "map absoluteTime (allEvents nm ns) = sort (map absoluteTime (emitted_all nm ns))"
    by (simp only: c1)
  have len: "length (allEvents nm ns) = length ?sorted"
    by (simp add: all to_delta_length)
  have c4: "\<forall>i<length (allEvents nm ns).
           deltaTime (allEvents nm ns ! i) =
             absoluteTime (allEvents nm ns ! i)
               - (if i = 0 then 0 else absoluteTime (allEvents nm ns ! (i - 1)))"
  proof (intro allI impI)
    fix i assume i: "i < length (allEvents nm ns)"
    then have i': "i < length ?sorted" by (simp add: len)
    then have "i - 1 < length ?sorted" by simp
    then show "deltaTime (allEvents nm ns ! i) =
             absoluteTime (allEvents nm ns ! i)
               - (if i = 0 then 0 else absoluteTime (allEvents nm ns ! (i - 1)))"
      using i' unfolding all by (simp add: to_delta_nth)
  qed
  have low: "\<forall>e\<in>set ?sorted. 0 \<le> absoluteTime e"
    using note_events_lower [OF tk, of nm 0] by simp
  have c5: "\<forall>e\<in>set (allEvents nm ns). 0 \<le> deltaTime e"
    unfolding all using srt low by (rule to_delta_nonneg)
  have c6: "\<forall>i<length (allEvents nm ns).
           sum_list (map deltaTime (take (Suc i) (allEvents nm ns))) =
             absoluteTime (allEvents nm ns ! i)"
  proof (intro allI impI)
    fix i assume "i < length (allEvents nm ns)"
    then have i': "i < length ?sorted" by (simp add: len)
    show "sum_list (map deltaTime (take (Suc i) (allEvents nm ns))) =
             absoluteTime (allEvents nm ns ! i)"
      unfolding all using i' by (simp add: to_delta_prefix_sum to_delta_nth)
  qed
  have c7: "\<exists>pre. chunks (toMidi gen opts ns) =
           [Track (pre @ allEvents (noteMap opts) ns @ [generateEndOfTrackEvent gen])]"
    by (simp add: toMidi_def)
  show ?thesis
    using c1 c2 c3 c4 c5 c6 c7 by (intro conjI)
qed

theorem toMidi_events_witness:
  "list_all (\<lambda>n. 0 \<le> ticks n \<and> [''A1'' \<mapsto> 60 :: nat] (padLabel n) \<noteq> Some 0)
     [note_A1 10 127 5, note_B1 20 100 0, note_A1 1 90 0]
   \<and> note_events [''A1'' \<mapsto> 60] 0 [note_A1 10 127 5, note_B1 20 100 0, note_A1 1 90 0] =
       [\<lparr>absoluteTime = 10, deltaTime = 0, etype = 0x90, channel = 0,
         data = NoteData 60 127 5, label = ''Note On''\<rparr>,
        \<lparr>absoluteTime = 15, deltaTime = 0, etype = 0x80, channel = 0,
         data = NoteData 60 0 5, label = ''Note Off''\<rparr>,
        \<lparr>absoluteTime = 31, deltaTime = 0, etype = 0x90, channel = 0,
         data = NoteData 60 90 0, label = ''Note On''\<rparr>]
   \<and> allEvents [''A1'' \<mapsto> 60] [note_A1 10 127 5, note_B1 20 100 0, note_A1 1 90 0] =
       [\<lparr>absoluteTime = 10, deltaTime = 10, etype = 0x90, channel = 0,
         data = NoteData 60 127 5, label = ''Note On''\<rparr>,
        \<lparr>absoluteTime = 15, deltaTime = 5, etype = 0x80, channel = 0,
         data = NoteData 60 0 5, label = ''Note Off''\<rparr>,
        \<lparr>absoluteTime = 31, deltaTime = 16, etype = 0x90, channel = 0,
         data = NoteData 60 90 0, label = ''Note On''\<rparr>]
   \<and> list_all (\<lambda>e. 0 \<le> deltaTime e)
       (allEvents [''A1'' \<mapsto> 60] [note_A1 10 127 5, note_B1 20 100 0, note_A1 1 90 0])"
proof -
  let ?ns = "[note_A1 10 127 5, note_B1 20 100 0, note_A1 1 90 0]"
  let ?nm = "[''A1'' \<mapsto> 60] :: string \<rightharpoonup> nat"
  have h: "\<forall>n\<in>set ?ns. 0 \<le> ticks n \<and> ?nm (padLabel n) \<noteq> Some 0"
    by (simp add: note_A1_def note_B1_def)
  note inst = toMidi_events [OF h, where gen = meta_generators
        and opts = "\<lparr>bpm = None, ppq = 480, fileName = [], noteMap = ?nm\<rparr>"]
  have spec: "emitted_all ?nm ?ns =
       [\<lparr>absoluteTime = 10, deltaTime = 0, etype = 0x90, channel = 0,
         data = NoteData 60 127 5, label = ''Note On''\<rparr>,
        \<lparr>absoluteTime = 15, deltaTime = 0, etype = 0x80, channel = 0,
         data = NoteData 60 0 5, label = ''Note Off''\<rparr>,
        \<lparr>absoluteTime = 31, deltaTime = 0, etype = 0x90, channel = 0,
         data = NoteData 60 90 0, label = ''Note On''\<rparr>]"
    by code_simp
  from inst have "note_events ?nm 0 ?ns = emitted_all ?nm ?ns"
    by (elim conjE)
  then have w1: "note_events ?nm 0 ?ns =
       [\<lparr>absoluteTime = 10, deltaTime = 0, etype = 0x90, channel = 0,
         data = NoteData 60 127 5, label = ''Note On''\<rparr>,
        \<lparr>absoluteTime = 15, deltaTime = 0, etype = 0x80, channel = 0,
         data = NoteData 60 0 5, label = ''Note Off''\<rparr>,
        \<lparr>absoluteTime = 31, deltaTime = 0, etype = 0x90, channel = 0,
         data = NoteData 60 90 0, label = ''Note On''\<rparr>]"
    by (simp only: spec)
  from inst have "\<forall>e\<in>set (allEvents ?nm ?ns). 0 \<le> deltaTime e"
    by (elim conjE)
  then have w3: "list_all (\<lambda>e. 0 \<le> deltaTime e) (allEvents ?nm ?ns)"
    by (simp add: list_all_iff)
  have w0: "list_all (\<lambda>n. 0 \<le> ticks n \<and> ?nm (padLabel n) \<noteq> Some 0) ?ns"
    using h by (simp add: list_all_iff)
  have w2: "allEvents ?nm ?ns =
       [\<lparr>absoluteTime = 10, deltaTime = 10, etype = 0x90, channel = 0,
         data = NoteData 60 127 5, label = ''Note On''\<rparr>,
        \<lparr>absoluteTime = 15, deltaTime = 5, etype = 0x80, channel = 0,
         data = NoteData 60 0 5, label = ''Note Off''\<rparr>,
        \<lparr>absoluteTime = 31, deltaTime = 16, etype = 0x90, channel = 0,
         data = NoteData 60 90 0, label = ''Note On''\<rparr>]"
    by code_simp
  show ?thesis
    using w0 w1 w2 w3 by (intro conjI)
qed

text \<open>
  C5 as stated fails: the note of pad B1, which has no entry in the note map, gets no
  Note On, and the track holds the two meta events alone. A pad mapped to the MIDI note
  0 gets none either (the lookup is tested for truth), where the description has a
  Note On and a Note Off of note 0.
\<close>

theorem toMidi_events_counterexample:
  "allEvents [''A1'' \<mapsto> 60] [note_B1 10 127 5] = []
   \<and> chunks (toMidi meta_generators
               \<lparr>bpm = None, ppq = 480, fileName = ''PTN00001'', noteMap = [''A1'' \<mapsto> 60]\<rparr>
               [note_B1 10 127 5]) =
       [Track [meta_event ''SP404 Pattern PTN00001'', meta_event ''End of Track'']]
   \<and> allEvents [''A1'' \<mapsto> 0] [note_A1 10 127 5] = []
   \<and> emitted_all [''A1'' \<mapsto> 0] [note_A1 10 127 5] =
       [\<lparr>absoluteTime = 10, deltaTime = 0, etype = 0x90, channel = 0,
         data = NoteData 0 127 5, label = ''Note On''\<rparr>,
        \<lparr>absoluteTime = 15, deltaTime = 0, etype = 0x80, channel = 0,
         data = NoteData 0 0 5, label = ''Note Off''\<rparr>]"
  by code_simp

text \<open>
  C4: \<open>toMidi\<close> skips the note of pad B1, which has no entry in the note map, and
  goes on with the next note (whose absolute time counts the skipped ticks);
  \<open>fromMidi\<close> does not skip the MIDI note 61, which has no entry in its note map: the
  lookup of the undefined pad in the table is destructured and throws.
\<close>

theorem unmapped_note:
  "allEvents [''A1'' \<mapsto> 60] [note_B1 10 127 0, note_A1 20 127 0] =
     [\<lparr>absoluteTime = 30, deltaTime = 30, etype = 0x90, channel = 0,
       data = NoteData 60 127 0, label = ''Note On''\<rparr>]
   \<and> fromMidi (Some (single_track [note_on_event 0 61 100 10, note_on_event 20 60 100 10]))
       (Some [60 \<mapsto> ''A1'']) (Some 480) False = Inl TypeError"
  by code_simp

section \<open>Properties of fromMidi\<close>

lemma convert_events_error:
  "convert_events is_og nm r es s = Inl e \<Longrightarrow> e = TypeError \<or> e = Unmodelled"
  by (induction es arbitrary: s) (auto simp: Let_def split: pad_lookup.splits)

text \<open>
  C6: \<open>fromMidi\<close> throws, before it creates the output buffer, when the
  \<open>audioMIDI\<close>, the note map or the \<open>patternPPQN\<close> is missing (a \<open>patternPPQN\<close> of
  0 counts as missing), each with a message of its own; with all three given it fails on
  none of these checks.
\<close>

theorem fromMidi_missing_arguments:
  "fromMidi None nm p is_og = Inl NoAudioMIDI
   \<and> fromMidi (Some m) None p is_og = Inl NoNoteMap
   \<and> fromMidi (Some m) (Some nm') None is_og = Inl NoPatternPPQN
   \<and> fromMidi (Some m) (Some nm') (Some 0) is_og = Inl NoPatternPPQN
   \<and> (q \<noteq> 0 \<longrightarrow> fromMidi (Some m) (Some nm') (Some q) is_og
                  \<notin> {Inl NoAudioMIDI, Inl NoNoteMap, Inl NoPatternPPQN})
   \<and> message NoAudioMIDI = Some ''No audioMIDI provided, please provide an AudioMIDI instance.''
   \<and> message NoNoteMap =
       Some ''No noteMap provided, please provide a mapping of MIDI notes to pads.''
   \<and> message NoPatternPPQN =
       Some ''No patternPPQN provided, please provide a PPQN for the pattern: OG is 96, MKii is 480.''"
proof -
  have "fromMidi (Some m) (Some nm') (Some q) is_og
          \<notin> {Inl NoAudioMIDI, Inl NoNoteMap, Inl NoPatternPPQN}" if "q \<noteq> 0"
    using that
    by (auto simp: fromMidi_def Let_def split: sum.splits prod.splits dest: convert_events_error)
  then show ?thesis
    by (simp add: fromMidi_def message_def)
qed

theorem fromMidi_missing_arguments_witness:
  "(480 :: nat) \<noteq> 0
   \<and> fromMidi (Some (single_track [])) (Some Map.empty) (Some 480) False
        \<notin> {Inl NoAudioMIDI, Inl NoNoteMap, Inl NoPatternPPQN}
   \<and> fromMidi (Some (single_track [])) (Some Map.empty) (Some 0) False = Inl NoPatternPPQN
   \<and> fromMidi (Some (single_track [])) None (Some 480) False = Inl NoNoteMap
   \<and> fromMidi None (Some Map.empty) (Some 480) False = Inl NoAudioMIDI"
  using fromMidi_missing_arguments [of "Some Map.empty" "Some 480" False "single_track []" Map.empty 480]
        fromMidi_missing_arguments [of "Some Map.empty" "Some 480" False "single_track []" Map.empty 0]
  by simp

text \<open>
  C1, at two inputs. Two notes 600 ticks apart: three rest records (255, 255, 90) are
  written, and then the note itself is written with 600 in its single-byte ticks field.
  Three notes at 0, 200 and 500: the gap of 300 ticks before the third note gets no rest
  record at all (the gap is computed as \<open>ticks - currentTime = 300 - 200\<close>), and 300 is
  written to the ticks field.
\<close>

theorem gap_not_split:
  "fromMidi (Some (single_track [note_on_event 0 60 100 10, note_on_event 600 60 100 10]))
     (Some [60 \<mapsto> ''A1'']) (Some 480) False =
   Inr \<lparr>records =
          [\<lparr>ticks = 0, midiNote = 47, bankSwitch = 64, pitchMode = 0, velocity = 100,
            unknown3 = 64, length_t = 10\<rparr>,
           emptyNote 255, emptyNote 255, emptyNote 90,
           \<lparr>ticks = 600, midiNote = 47, bankSwitch = 64, pitchMode = 0, velocity = 100,
            unknown3 = 64, length_t = 10\<rparr>,
           emptyNote 255, emptyNote 255, emptyNote 255, emptyNote 255, emptyNote 255,
           emptyNote 45],
        footer = [0, 140, 0, 0, 0, 0, 0, 0, 1, 0, 0, 0, 0, 128, 1, 1]\<rparr>
   \<and> fromMidi (Some (single_track [note_on_event 0 60 100 10, note_on_event 200 60 100 10,
                                    note_on_event 300 60 100 10]))
     (Some [60 \<mapsto> ''A1'']) (Some 480) False =
   Inr \<lparr>records =
          [\<lparr>ticks = 0, midiNote = 47, bankSwitch = 64, pitchMode = 0, velocity = 100,
            unknown3 = 64, length_t = 10\<rparr>,
           \<lparr>ticks = 200, midiNote = 47, bankSwitch = 64, pitchMode = 0, velocity = 100,
            unknown3 = 64, length_t = 10\<rparr>,
           \<lparr>ticks = 300, midiNote = 47, bankSwitch = 64, pitchMode = 0, velocity = 100,
            unknown3 = 64, length_t = 10\<rparr>,
           emptyNote 255, emptyNote 255, emptyNote 255, emptyNote 255, emptyNote 255,
           emptyNote 145],
        footer = [0, 140, 0, 0, 0, 0, 0, 0, 1, 0, 0, 0, 0, 128, 1, 1]\<rparr>"
  by code_simp

text \<open>
  C3, at two inputs. One note at time 0: the rest records of one bar are written, but
  the current time stays 0 and the footer holds a bar count of 0. One note at tick
  124800, which is 65 whole bars: the remainder is 0, nothing caps the bar count, and
  the footer holds 65.
\<close>

theorem bar_count_not_forced:
  "fromMidi (Some (single_track [note_on_event 0 60 100 10]))
     (Some [60 \<mapsto> ''A1'']) (Some 480) False =
   Inr \<lparr>records =
          [\<lparr>ticks = 0, midiNote = 47, bankSwitch = 64, pitchMode = 0, velocity = 100,
            unknown3 = 64, length_t = 10\<rparr>,
           emptyNote 255, emptyNote 255, emptyNote 255, emptyNote 255, emptyNote 255,
           emptyNote 255, emptyNote 255, emptyNote 135],
        footer = [0, 140, 0, 0, 0, 0, 0, 0, 0, 0, 0, 0, 0, 128, 0, 1]\<rparr>
   \<and> map_sum id footer
       (fromMidi (Some (single_track [note_on_event 124800 60 100 10]))
          (Some [60 \<mapsto> ''A1'']) (Some 480) False) =
     Inr [0, 140, 0, 0, 0, 0, 0, 0, 65, 0, 0, 0, 0, 128, 65, 1]"
  by code_simp

subsection \<open>The round trip\<close>

lemma track_notes_to_delta:
  "track_notes t (to_delta t es) = map to_on (filter is_on es)"
  by (induction es arbitrary: t)
     (auto simp: Let_def is_on_def to_on_def split: event_data.splits)

lemma track_notes_append:
  "track_notes t (xs @ ys) = track_notes t xs @ track_notes (t + sum_list (map deltaTime xs)) ys"
  by (induction xs arbitrary: t) (auto simp: Let_def add.assoc)

lemma track_notes_other:
  "data e = OtherData \<Longrightarrow> track_notes t [e] = []"
  by (simp add: Let_def)

lemma filter_on_note_events:
  assumes "\<forall>n\<in>set ns. 0 < velocity n \<and> (\<exists>k. nm (padLabel n) = Some k \<and> k \<noteq> 0)"
  shows "map to_on (filter is_on (note_events nm t ns)) = expected_ons nm t ns"
  using assms
proof (induction ns arbitrary: t)
  case Nil
  show ?case by simp
next
  case (Cons n ns)
  from Cons.prems obtain k where k: "nm (padLabel n) = Some k" "k \<noteq> 0" and v: "0 < velocity n"
    by auto
  have "map to_on (filter is_on (note_events nm (t + ticks n) ns)) = expected_ons nm (t + ticks n) ns"
    using Cons.prems by (intro Cons.IH) simp
  moreover have "is_on (noteOn k (t + ticks n) n)"
    using v by (simp add: is_on_def noteOn_def)
  moreover have "\<not> is_on (noteOff k (t + ticks n) n)"
    by (simp add: is_on_def noteOff_def)
  moreover have "to_on (noteOn k (t + ticks n) n) =
      \<lparr>on_absoluteTime = t + ticks n, on_note = k, on_velocity = velocity n,
       on_length = length_t n\<rparr>"
    by (simp add: to_on_def noteOn_def)
  ultimately show ?case
    using k by (simp add: Let_def)
qed

lemma expected_ons_lower:
  assumes "\<forall>n\<in>set ns. 0 \<le> ticks n"
  shows "\<forall>e\<in>set (expected_ons nm t ns). t \<le> on_absoluteTime e"
  using assms
proof (induction ns arbitrary: t)
  case Nil
  show ?case by simp
next
  case (Cons n ns)
  have "\<forall>e\<in>set (expected_ons nm (t + ticks n) ns). t + ticks n \<le> on_absoluteTime e"
    using Cons.prems by (intro Cons.IH) simp
  moreover have "0 \<le> ticks n" using Cons.prems by simp
  ultimately show ?case by auto
qed

lemma expected_ons_sorted:
  assumes "\<forall>n\<in>set ns. 0 \<le> ticks n"
  shows "sorted (map on_absoluteTime (expected_ons nm t ns))"
  using assms
proof (induction ns arbitrary: t)
  case Nil
  show ?case by simp
next
  case (Cons n ns)
  have "sorted (map on_absoluteTime (expected_ons nm (t + ticks n) ns))"
    using Cons.prems by (intro Cons.IH) simp
  moreover have "\<forall>e\<in>set (expected_ons nm (t + ticks n) ns). t + ticks n \<le> on_absoluteTime e"
    using Cons.prems by (intro expected_ons_lower) simp
  ultimately show ?case by simp
qed

lemma to_on_absoluteTime: "on_absoluteTime (to_on e) = absoluteTime e"
  by (simp add: to_on_def split: event_data.splits)

lemma flatten_toMidi:
  assumes tempo: "\<forall>b. deltaTime (generateTempoEvent gen b) = 0 \<and> data (generateTempoEvent gen b) = OtherData"
    and name: "\<forall>t s. deltaTime (generateMetaStringEvent gen t s) = 0
                    \<and> data (generateMetaStringEvent gen t s) = OtherData"
    and eot: "data (generateEndOfTrackEvent gen) = OtherData"
    and pads: "\<forall>n\<in>set ns. 0 \<le> ticks n \<and> 0 < velocity n
                  \<and> (\<exists>k. noteMap opts (padLabel n) = Some k \<and> k \<noteq> 0)"
  shows "sort_key on_absoluteTime (flatten (chunks (toMidi gen opts ns))) =
           expected_ons (noteMap opts) 0 ns"
proof -
  let ?nm = "noteMap opts"
  let ?evs = "note_events ?nm 0 ns"
  define pre where "pre =
     (case bpm opts of None \<Rightarrow> [] | Some b \<Rightarrow> if b = 0 then [] else [generateTempoEvent gen b])
     @ [generateMetaStringEvent gen 0x03 (''SP404 Pattern '' @ fileName opts)]"
  define rest where "rest = allEvents ?nm ns @ [generateEndOfTrackEvent gen]"
  have pre_t: "sum_list (map deltaTime pre) = 0"
    unfolding pre_def using tempo name by (simp split: option.splits)
  have pre_n: "track_notes 0 pre = []"
    unfolding pre_def using tempo name by (simp add: Let_def split: option.splits)
  have ons: "map to_on (filter is_on ?evs) = expected_ons ?nm 0 ns"
    using pads by (intro filter_on_note_events) simp
  have srt: "sorted (map on_absoluteTime (expected_ons ?nm 0 ns))"
    using pads by (intro expected_ons_sorted) simp
  have "map absoluteTime (filter is_on ?evs) = map on_absoluteTime (map to_on (filter is_on ?evs))"
    by (simp add: to_on_absoluteTime comp_def)
  with srt have "sorted (map absoluteTime (filter is_on ?evs))"
    by (simp only: ons)
  then have "sort_key absoluteTime (filter is_on ?evs) = filter is_on ?evs"
    by (rule sort_key_id_if_sorted)
  then have "filter is_on (sort_key absoluteTime ?evs) = filter is_on ?evs"
    by (simp add: filter_sort)
  then have notes_on: "track_notes 0 (allEvents ?nm ns) = expected_ons ?nm 0 ns"
    by (simp add: allEvents_def track_notes_to_delta ons)
  have "flatten (chunks (toMidi gen opts ns)) = track_notes 0 (pre @ rest)"
    by (simp add: flatten_def toMidi_def pre_def rest_def)
  also have "\<dots> = track_notes 0 pre @ track_notes (0 + sum_list (map deltaTime pre)) rest"
    by (rule track_notes_append)
  also have "\<dots> = track_notes 0 rest"
    by (simp add: pre_t pre_n)
  also have "\<dots> = track_notes 0 (allEvents ?nm ns)
        @ track_notes (0 + sum_list (map deltaTime (allEvents ?nm ns))) [generateEndOfTrackEvent gen]"
    unfolding rest_def by (rule track_notes_append)
  also have "\<dots> = expected_ons ?nm 0 ns"
    by (simp only: track_notes_other [OF eot] notes_on append_Nil2)
  finally have "flatten (chunks (toMidi gen opts ns)) = expected_ons ?nm 0 ns" .
  then show ?thesis
    using srt by (simp only: sort_key_id_if_sorted)
qed

lemma Math_round_int: "Math_round (real_of_int x) = x"
  by (simp add: Math_round_def)

lemma round_trip_pads_og: "list_all (reads_back True) (round_trip_pads True)"
  by code_simp

lemma round_trip_pads_mkii: "list_all (reads_back False) (round_trip_pads False)"
  by code_simp

lemma round_trip_pads_read_back:
  assumes "l \<in> set (round_trip_pads is_og)"
  shows "reads_back is_og l"
proof (cases is_og)
  case True
  with assms round_trip_pads_og show ?thesis
    by (simp add: list_all_iff)
next
  case False
  with assms round_trip_pads_mkii show ?thesis
    by (simp add: list_all_iff)
qed

lemma reads_back_entry:
  assumes "reads_back is_og l"
  obtains m where "map_of (pad_table is_og) l = Some m"
    and "padLabel_of (hardware_pads is_og)
           (sampleNumber_of is_og (hardware_pads is_og) (pm_midiNote m) (pm_bankSwitch m)) = l"
    and "0 \<le> pm_midiNote m" and "pm_midiNote m \<le> 255"
    and "0 \<le> pm_bankSwitch m" and "pm_bankSwitch m \<le> 255"
  using assms by (auto simp: reads_back_def split: option.splits)

lemma convert_expected:
  assumes "\<forall>n\<in>set ns. ticks n \<le> 255
                  \<and> reads_back is_og (padLabel n)
                  \<and> (\<exists>k. nm (padLabel n) = Some k \<and> pad_of k = Some (padLabel n))"
    and "lastAbsoluteTime s = t" and "0 \<le> currentTime s"
    and "\<forall>n\<in>set ns. 0 \<le> ticks n"
  shows "\<exists>s'. convert_events is_og pad_of 1 (expected_ons nm t ns) s = Inr s'
              \<and> buf s' = buf s @ map (written is_og) ns"
  using assms
proof (induction ns arbitrary: s t)
  case Nil
  show ?case by simp
next
  case (Cons n ns)
  from Cons.prems(1) obtain k
    where k: "nm (padLabel n) = Some k" "pad_of k = Some (padLabel n)"
      and rb: "reads_back is_og (padLabel n)"
      and hi: "ticks n \<le> 255"
    by auto
  from rb obtain m where m: "map_of (pad_table is_og) (padLabel n) = Some m"
    by (rule reads_back_entry)
  then have look: "lookup_pad is_og (Some (padLabel n)) = Entry m"
    by (simp add: lookup_pad_def pad_table_def)
  from Cons.prems(4) have lo: "0 \<le> ticks n" by simp
  let ?s = "\<lparr>buf = buf s @ [written is_og n], currentTime = currentTime s + ticks n,
             totalTrackLength = totalTrackLength s + length_t n,
             lastAbsoluteTime = t + ticks n\<rparr>"
  have step: "convert_events is_og pad_of 1 (expected_ons nm t (n # ns)) s =
      convert_events is_og pad_of 1 (expected_ons nm (t + ticks n) ns) ?s"
    using k m look hi lo Cons.prems(2,3)
    by (simp add: Let_def Math_round_int written_def)
  have "\<exists>s'. convert_events is_og pad_of 1 (expected_ons nm (t + ticks n) ns) ?s = Inr s'
              \<and> buf s' = buf ?s @ map (written is_og) ns"
    using Cons.prems lo by (intro Cons.IH) simp_all
  then show ?case
    unfolding step by simp
qed

lemma insertEmptyNotes_rests:
  "\<exists>rs. insertEmptyNotes gap b = b @ rs
        \<and> (\<forall>r\<in>set rs. \<exists>t. 0 < t \<and> t \<le> 255 \<and> r = emptyNote t)"
proof (induction gap b rule: insertEmptyNotes.induct)
  case (1 gap b)
  show ?case
  proof (cases "gap > 0")
    case False
    then show ?thesis
      by (subst insertEmptyNotes.simps) simp
  next
    case True
    let ?t = "min gap maxTicksInGap"
    from "1.IH" [OF True refl] obtain rs
      where rs: "insertEmptyNotes (gap - ?t) (b @ [emptyNote ?t]) = (b @ [emptyNote ?t]) @ rs"
        and all: "\<forall>r\<in>set rs. \<exists>t. 0 < t \<and> t \<le> 255 \<and> r = emptyNote t"
      by blast
    have t: "0 < ?t \<and> ?t \<le> 255"
      using True by (simp add: maxTicksInGap_def)
    have "insertEmptyNotes gap b = b @ (emptyNote ?t # rs)"
      using True rs by (subst insertEmptyNotes.simps) (simp add: Let_def)
    moreover have "\<exists>t'. 0 < t' \<and> t' \<le> 255 \<and> emptyNote ?t = emptyNote t'"
      using t by blast
    then have "\<forall>r\<in>set (emptyNote ?t # rs). \<exists>t. 0 < t \<and> t \<le> 255 \<and> r = emptyNote t"
      using all by simp
    ultimately show ?thesis by blast
  qed
qed

lemma round_to_bar_rests:
  "\<exists>rs. fst (round_to_bar tpb s) = buf s @ rs
        \<and> (\<forall>r\<in>set rs. \<exists>t. 0 < t \<and> t \<le> 255 \<and> r = emptyNote t)"
proof -
  have keep: "\<exists>rs. buf s = buf s @ rs \<and> (\<forall>r\<in>set rs. \<exists>t. 0 < t \<and> t \<le> 255 \<and> r = emptyNote t)"
    by (intro exI [of _ "[]"]) simp
  show ?thesis
    using keep insertEmptyNotes_rests [of _ "buf s"]
    by (simp add: round_to_bar_def Let_def)
qed

lemma written_key_written:
  assumes "reads_back is_og (padLabel n)"
  shows "written_key is_og (written is_og n) = note_key n"
proof -
  from assms obtain m where "map_of (pad_table is_og) (padLabel n) = Some m"
    and "padLabel_of (hardware_pads is_og)
           (sampleNumber_of is_og (hardware_pads is_og) (pm_midiNote m) (pm_bankSwitch m)) = padLabel n"
    by (rule reads_back_entry)
  then show ?thesis
    by (simp add: written_key_def written_def note_key_def)
qed

lemma fits_written:
  assumes "reads_back is_og (padLabel n)"
    and "0 \<le> ticks n" "ticks n \<le> 255" "0 \<le> velocity n" "velocity n \<le> 255"
    and "0 \<le> length_t n" "length_t n \<le> 65535"
  shows "fits (written is_og n)"
proof -
  from assms(1) obtain m where "map_of (pad_table is_og) (padLabel n) = Some m"
    and "0 \<le> pm_midiNote m" "pm_midiNote m \<le> 255"
    and "0 \<le> pm_bankSwitch m" "pm_bankSwitch m \<le> 255"
    by (rule reads_back_entry)
  with assms(2-) show ?thesis
    by (simp add: fits_def written_def)
qed

lemma fits_emptyNote: "0 < t \<Longrightarrow> t \<le> 255 \<Longrightarrow> fits (emptyNote t)"
  by (simp add: fits_def emptyNote_def)

text \<open>
  C2, as the code has it. For a pattern whose notes have ticks, velocity and length
  within their fields (a byte, a byte, 16 bits) and a positive velocity, and whose pads
  read back (every pad of the MKii table, banks A to F of the OG table) and are sent by
  the note map to a nonzero MIDI note which the note map of \<open>fromMidi\<close> sends back to
  the pad: \<open>toMidi\<close> and then \<open>fromMidi\<close>, for either hardware revision and with the same
  nonzero PPQN, write, in the order of the notes, records with the same pad label,
  ticks, velocity and length, followed only by rest records of 1 to 255 ticks, the
  padding to the bar; every number written lies in the range of its field. The meta
  events of the generators are taken to stand at delta time 0.
\<close>

theorem round_trip_same_ppqn:
  assumes tempo: "\<forall>b. deltaTime (generateTempoEvent gen b) = 0
                      \<and> data (generateTempoEvent gen b) = OtherData"
    and name: "\<forall>t s. deltaTime (generateMetaStringEvent gen t s) = 0
                      \<and> data (generateMetaStringEvent gen t s) = OtherData"
    and eot: "data (generateEndOfTrackEvent gen) = OtherData"
    and q: "ppq opts = q" "q \<noteq> 0"
    and pads: "\<forall>n\<in>set ns. 0 \<le> ticks n \<and> ticks n \<le> 255
                 \<and> 0 < velocity n \<and> velocity n \<le> 255
                 \<and> 0 \<le> length_t n \<and> length_t n \<le> 65535
                 \<and> padLabel n \<in> set (round_trip_pads is_og)
                 \<and> (\<exists>k. noteMap opts (padLabel n) = Some k \<and> k \<noteq> 0
                          \<and> pad_of k = Some (padLabel n))"
  shows "\<exists>b. fromMidi (Some (toMidi gen opts ns)) (Some pad_of) (Some q) is_og = Inr b
           \<and> map (written_key is_og) (take (length ns) (records b)) = map note_key ns
           \<and> (\<forall>r\<in>set (drop (length ns) (records b)). \<exists>t. 0 < t \<and> t \<le> 255 \<and> r = emptyNote t)
           \<and> list_all fits (records b)"
proof -
  let ?s0 = "\<lparr>buf = [], currentTime = 0, totalTrackLength = 0, lastAbsoluteTime = 0\<rparr>"
  have rb: "\<forall>n\<in>set ns. reads_back is_og (padLabel n)"
    using pads by (auto intro: round_trip_pads_read_back)
  have td: "timeDivision (toMidi gen opts ns) = q"
    using q by (simp add: toMidi_def)
  have ratio: "real q / real q = 1"
    using q by simp
  have sorted: "sort_key on_absoluteTime (flatten (chunks (toMidi gen opts ns))) =
      expected_ons (noteMap opts) 0 ns"
    using tempo name eot pads by (intro flatten_toMidi) auto
  have "\<exists>s'. convert_events is_og pad_of 1 (expected_ons (noteMap opts) 0 ns) ?s0 = Inr s'
              \<and> buf s' = buf ?s0 @ map (written is_og) ns"
    using pads rb by (intro convert_expected) auto
  then obtain s' where conv: "convert_events is_og pad_of 1 (expected_ons (noteMap opts) 0 ns) ?s0 = Inr s'"
    and buf: "buf s' = map (written is_og) ns"
    by auto
  obtain rs where rs: "fst (round_to_bar (int q * 4) s') = buf s' @ rs"
    and rests: "\<forall>r\<in>set rs. \<exists>t. 0 < t \<and> t \<le> 255 \<and> r = emptyNote t"
    using round_to_bar_rests [of "int q * 4" s'] by blast
  obtain ct where bar: "round_to_bar (int q * 4) s' = (map (written is_og) ns @ rs, ct)"
    using rs buf by (cases "round_to_bar (int q * 4) s'") simp
  let ?b = "\<lparr>records = map (written is_og) ns @ rs,
             footer = make_footer is_og (Math_round (real_of_int ct / real_of_int (int q * 4)))\<rparr>"
  have res: "fromMidi (Some (toMidi gen opts ns)) (Some pad_of) (Some q) is_og = Inr ?b"
    using q by (simp add: fromMidi_def td ratio sorted conv bar Let_def)
  have keys: "map (written_key is_og) (map (written is_og) ns) = map note_key ns"
    using rb by (simp add: written_key_written)
  have "\<forall>n\<in>set ns. fits (written is_og n)"
    using pads rb by (auto intro!: fits_written)
  moreover have "\<forall>r\<in>set rs. fits r"
    using rests by (auto intro: fits_emptyNote)
  ultimately have fit: "list_all fits (map (written is_og) ns @ rs)"
    by (auto simp: list_all_iff)
  show ?thesis
    using res keys rests fit by (intro exI [of _ ?b]) simp
qed

theorem round_trip_same_ppqn_witness:
  "(\<exists>b. fromMidi
          (Some (toMidi meta_generators
                   \<lparr>bpm = Some 120, ppq = 480, fileName = ''PTN00001'',
                    noteMap = [''A1'' \<mapsto> 60, ''B1'' \<mapsto> 61]\<rparr>
                   [note_A1 0 127 10, note_B1 96 100 0]))
          (Some [60 \<mapsto> ''A1'', 61 \<mapsto> ''B1'']) (Some 480) False = Inr b
      \<and> map (written_key False) (take 2 (records b)) = [(''A1'', 0, 127, 10), (''B1'', 96, 100, 0)]
      \<and> list_all fits (records b))
   \<and> (\<exists>b. fromMidi
          (Some (toMidi meta_generators
                   \<lparr>bpm = None, ppq = 96, fileName = ''PTN00001'',
                    noteMap = [''F12'' \<mapsto> 60]\<rparr>
                   [note_OG_F12 24 127 10]))
          (Some [60 \<mapsto> ''F12'']) (Some 96) True = Inr b
      \<and> map (written_key True) (take 1 (records b)) = [(''F12'', 24, 127, 10)]
      \<and> list_all fits (records b))"
proof -
  let ?opts = "\<lparr>bpm = Some 120, ppq = 480, fileName = ''PTN00001'',
                noteMap = [''A1'' \<mapsto> 60, ''B1'' \<mapsto> 61]\<rparr>"
  let ?ns = "[note_A1 0 127 10, note_B1 96 100 0]"
  let ?pad_of = "[60 \<mapsto> ''A1'', 61 \<mapsto> ''B1''] :: nat \<rightharpoonup> string"
  let ?opts' = "\<lparr>bpm = None, ppq = 96, fileName = ''PTN00001'', noteMap = [''F12'' \<mapsto> 60]\<rparr>"
  let ?ns' = "[note_OG_F12 24 127 10]"
  let ?pad_of' = "[60 \<mapsto> ''F12''] :: nat \<rightharpoonup> string"
  have tempo: "\<forall>b. deltaTime (generateTempoEvent meta_generators b) = 0
                  \<and> data (generateTempoEvent meta_generators b) = OtherData"
    by (simp add: meta_generators_def meta_event_def)
  have name: "\<forall>t s. deltaTime (generateMetaStringEvent meta_generators t s) = 0
                  \<and> data (generateMetaStringEvent meta_generators t s) = OtherData"
    by (simp add: meta_generators_def meta_event_def)
  have eot: "data (generateEndOfTrackEvent meta_generators) = OtherData"
    by (simp add: meta_generators_def meta_event_def)
  have q: "ppq ?opts = 480" "(480 :: nat) \<noteq> 0"
    by simp_all
  have q': "ppq ?opts' = 96" "(96 :: nat) \<noteq> 0"
    by simp_all
  have in_mkii: "''A1'' \<in> set (round_trip_pads False)" "''B1'' \<in> set (round_trip_pads False)"
    by code_simp+
  have in_og: "''F12'' \<in> set (round_trip_pads True)"
    by code_simp
  have pads: "\<forall>n\<in>set ?ns. 0 \<le> ticks n \<and> ticks n \<le> 255
                 \<and> 0 < velocity n \<and> velocity n \<le> 255
                 \<and> 0 \<le> length_t n \<and> length_t n \<le> 65535
                 \<and> padLabel n \<in> set (round_trip_pads False)
                 \<and> (\<exists>k. noteMap ?opts (padLabel n) = Some k \<and> k \<noteq> 0
                          \<and> ?pad_of k = Some (padLabel n))"
    using in_mkii by (simp add: note_A1_def note_B1_def)
  have pads': "\<forall>n\<in>set ?ns'. 0 \<le> ticks n \<and> ticks n \<le> 255
                 \<and> 0 < velocity n \<and> velocity n \<le> 255
                 \<and> 0 \<le> length_t n \<and> length_t n \<le> 65535
                 \<and> padLabel n \<in> set (round_trip_pads True)
                 \<and> (\<exists>k. noteMap ?opts' (padLabel n) = Some k \<and> k \<noteq> 0
                          \<and> ?pad_of' k = Some (padLabel n))"
    using in_og by (simp add: note_OG_F12_def)
  from round_trip_same_ppqn [OF tempo name eot q pads]
  obtain b where b: "fromMidi (Some (toMidi meta_generators ?opts ?ns)) (Some ?pad_of) (Some 480) False = Inr b"
    and k: "map (written_key False) (take (length ?ns) (records b)) = map note_key ?ns"
    and f: "list_all fits (records b)"
    by blast
  from k have k2: "map (written_key False) (take 2 (records b)) =
      [(''A1'', 0, 127, 10), (''B1'', 96, 100, 0)]"
    by (simp add: note_key_def note_A1_def note_B1_def numeral_2_eq_2)
  from round_trip_same_ppqn [OF tempo name eot q' pads']
  obtain b' where b': "fromMidi (Some (toMidi meta_generators ?opts' ?ns')) (Some ?pad_of') (Some 96) True = Inr b'"
    and k': "map (written_key True) (take (length ?ns') (records b')) = map note_key ?ns'"
    and f': "list_all fits (records b')"
    by blast
  from k' have k1: "map (written_key True) (take 1 (records b')) = [(''F12'', 24, 127, 10)]"
    by (simp add: note_key_def note_OG_F12_def)
  have one: "\<exists>b. fromMidi (Some (toMidi meta_generators ?opts ?ns)) (Some ?pad_of) (Some 480) False = Inr b
      \<and> map (written_key False) (take 2 (records b)) = [(''A1'', 0, 127, 10), (''B1'', 96, 100, 0)]
      \<and> list_all fits (records b)"
    using b k2 f by (intro exI [of _ b] conjI)
  have two: "\<exists>b. fromMidi (Some (toMidi meta_generators ?opts' ?ns')) (Some ?pad_of') (Some 96) True = Inr b
      \<and> map (written_key True) (take 1 (records b)) = [(''F12'', 24, 127, 10)]
      \<and> list_all fits (records b)"
    using b' k1 f' by (intro exI [of _ b'] conjI)
  show ?thesis
    using one two by (intro conjI)
qed

text \<open>
  C2 as stated fails. A pattern of one note of pad A1 (velocity 127, length 10) comes
  back as that record and eight rest records, which \<open>parse\<close> labels F2: the multiset of
  (padLabel, ticks, velocity, length) is another one. A note with velocity 0 does not
  come back at all: \<open>fromMidi\<close> keeps only Note On events with a positive velocity.
  With a PPQN of 96 in \<open>toMidi\<close> and 480 in \<open>fromMidi\<close> the ticks and the length come
  back five times as large. On the OG, a note of pad G1 comes back as a record that
  \<open>parse\<close> labels H1: the OG table holds 71 with bank switch 64 for G1, which
  \<open>parse\<close> reads as sample 85.
\<close>

theorem round_trip_counterexample:
  "map_sum id (map (written_key False) \<circ> records)
     (fromMidi
        (Some (toMidi meta_generators
                 \<lparr>bpm = Some 120, ppq = 480, fileName = ''PTN00001'', noteMap = [''A1'' \<mapsto> 60]\<rparr>
                 [note_A1 0 127 10]))
        (Some [60 \<mapsto> ''A1'']) (Some 480) False) =
   Inr [(''A1'', 0, 127, 10), (''F2'', 255, 0, 0), (''F2'', 255, 0, 0), (''F2'', 255, 0, 0),
        (''F2'', 255, 0, 0), (''F2'', 255, 0, 0), (''F2'', 255, 0, 0), (''F2'', 255, 0, 0),
        (''F2'', 135, 0, 0)]
   \<and> map note_key [note_A1 0 127 10] = [(''A1'', 0, 127, 10)]
   \<and> map_sum id (map (written_key False) \<circ> records)
     (fromMidi
        (Some (toMidi meta_generators
                 \<lparr>bpm = Some 120, ppq = 480, fileName = ''PTN00001'', noteMap = [''A1'' \<mapsto> 60]\<rparr>
                 [note_A1 0 0 10]))
        (Some [60 \<mapsto> ''A1'']) (Some 480) False) = Inr []
   \<and> map note_key [note_A1 0 0 10] = [(''A1'', 0, 0, 10)]
   \<and> map_sum id (map (written_key False) \<circ> take 1 \<circ> records)
     (fromMidi
        (Some (toMidi meta_generators
                 \<lparr>bpm = Some 120, ppq = 96, fileName = ''PTN00001'', noteMap = [''A1'' \<mapsto> 60]\<rparr>
                 [note_A1 10 127 20]))
        (Some [60 \<mapsto> ''A1'']) (Some 480) False) = Inr [(''A1'', 50, 127, 100)]
   \<and> map note_key [note_A1 10 127 20] = [(''A1'', 10, 127, 20)]
   \<and> map_sum id (map (written_key True) \<circ> take 1 \<circ> records)
     (fromMidi
        (Some (toMidi meta_generators
                 \<lparr>bpm = None, ppq = 96, fileName = ''PTN00001'', noteMap = [''G1'' \<mapsto> 60]\<rparr>
                 [note_OG_G1 24 127 10]))
        (Some [60 \<mapsto> ''G1'']) (Some 96) True) = Inr [(''H1'', 24, 127, 10)]
   \<and> map note_key [note_OG_G1 24 127 10] = [(''G1'', 24, 127, 10)]"
  by code_simp

end
